theory Spec2Isabelle
  imports Main
begin

section \<open>Go values used by the client\<close>

subsection \<open>Errors\<close>

text \<open>
  The client creates errors in three ways only: \<^verbatim>\<open>errors.New(s)\<close> and
  \<^verbatim>\<open>fmt.Errorf\<close> without \<^verbatim>\<open>%w\<close> (an error that is just its text), and
  \<^verbatim>\<open>fmt.Errorf(prefix + "%w", err)\<close> (an error that wraps \<open>err\<close> and whose text is
  the prefix followed by the text of \<open>err\<close>). Every other error comes out of a
  library (\<^verbatim>\<open>net/http\<close>, \<^verbatim>\<open>io\<close>, \<^verbatim>\<open>encoding/json\<close>).
\<close>

datatype lib_error =
    SyntaxError
  | UnmarshalValueError
  | ForeignError string

datatype go_error =
    ErrorString string
  | WrapError string go_error
  | LibError lib_error

text \<open>\<^verbatim>\<open>err.Error()\<close>; the text of a library error is the library's business.\<close>

fun Error :: "(lib_error \<Rightarrow> string) \<Rightarrow> go_error \<Rightarrow> string" where
  "Error lib_text (ErrorString s) = s"
| "Error lib_text (WrapError prefix err) = prefix @ Error lib_text err"
| "Error lib_text (LibError e) = lib_text e"

text \<open>\<^verbatim>\<open>errors.Unwrap(err)\<close>.\<close>

fun Unwrap :: "go_error \<Rightarrow> go_error option" where
  "Unwrap (WrapError prefix err) = Some err"
| "Unwrap (ErrorString s) = None"
| "Unwrap (LibError e) = None"

subsection \<open>Formatting with \<^verbatim>\<open>%d\<close>\<close>

fun digits :: "nat \<Rightarrow> string" where
  "digits n =
     (if n < 10 then [''0123456789'' ! n]
      else digits (n div 10) @ [''0123456789'' ! (n mod 10)])"

declare digits.simps [simp del]

definition Sprint_d :: "int \<Rightarrow> string" where
  "Sprint_d i = (if i < 0 then ''-'' @ digits (nat (- i)) else digits (nat i))"

section \<open>encoding/json, as far as the client depends on it\<close>

subsection \<open>Syntax\<close>

text \<open>
  \<^verbatim>\<open>encoding/json\<close> is Go's standard library, not code of the client; what follows
  is its documented behaviour on the struct types of \<^verbatim>\<open>models.go\<close>.

  \<^verbatim>\<open>json.Unmarshal\<close> first checks that the whole input is one JSON text (RFC 8259,
  with the scanner's limit of 10000 nested arrays and objects) and decodes
  nothing when it is not. The input is read byte by byte into tokens, and the
  tokens one by one into a value, with a stack of the arrays and objects that
  are still open. A string token keeps the bytes between its quotes as they
  are, a number token its literal.
\<close>

datatype json =
    JNull
  | JBool bool
  | JNumber string
  | JString string
  | JArray "json list"
  | JObject "(string \<times> json) list"

datatype token =
    TLBrace | TRBrace | TLBracket | TRBracket | TColon | TComma
  | TString string | TNumber string | TTrue | TFalse | TNull

definition is_space :: "char \<Rightarrow> bool" where
  "is_space c = (c \<in> set [CHR '' '', CHR 0x09, CHR 0x0A, CHR 0x0D])"

definition is_digit :: "char \<Rightarrow> bool" where
  "is_digit c = (c \<in> set ''0123456789'')"

definition is_hex :: "char \<Rightarrow> bool" where
  "is_hex c = (c \<in> set ''0123456789abcdefABCDEF'')"

definition is_letter :: "char \<Rightarrow> bool" where
  "is_letter c = (c \<in> set ''abcdefghijklmnopqrstuvwxyz'')"

definition is_number_char :: "char \<Rightarrow> bool" where
  "is_number_char c = (is_digit c \<or> c \<in> set ''+-.eE'')"

definition digits1 :: "string \<Rightarrow> bool" where
  "digits1 s = (s \<noteq> [] \<and> list_all is_digit s)"

definition valid_exponent :: "string \<Rightarrow> bool" where
  "valid_exponent s =
     (case s of
        [] \<Rightarrow> True
      | c # r \<Rightarrow>
          if c = CHR ''e'' \<or> c = CHR ''E''
          then (case r of
                  [] \<Rightarrow> False
                | d # r' \<Rightarrow> if d = CHR ''+'' \<or> d = CHR ''-'' then digits1 r' else digits1 r)
          else False)"

definition valid_fraction :: "string \<Rightarrow> bool" where
  "valid_fraction s =
     (case s of
        [] \<Rightarrow> True
      | c # r \<Rightarrow>
          if c = CHR ''.''
          then takeWhile is_digit r \<noteq> [] \<and> valid_exponent (dropWhile is_digit r)
          else valid_exponent s)"

definition valid_unsigned :: "string \<Rightarrow> bool" where
  "valid_unsigned s =
     (case s of
        [] \<Rightarrow> False
      | c # r \<Rightarrow>
          if c = CHR ''0'' then valid_fraction r
          else if is_digit c then valid_fraction (dropWhile is_digit r)
          else False)"

definition valid_number :: "string \<Rightarrow> bool" where
  "valid_number s =
     (case s of
        [] \<Rightarrow> False
      | c # r \<Rightarrow> if c = CHR ''-'' then valid_unsigned r else valid_unsigned s)"

datatype lex_state =
    LIdle
  | LString string
  | LEscape string
  | LHex nat string
  | LNumber string
  | LWord string

definition word_token :: "string \<Rightarrow> token option" where
  "word_token s =
     (if s = ''true'' then Some TTrue
      else if s = ''false'' then Some TFalse
      else if s = ''null'' then Some TNull
      else None)"

definition lex_idle :: "char \<Rightarrow> (token list \<times> lex_state) option" where
  "lex_idle c =
     (if is_space c then Some ([], LIdle)
      else if c = CHR ''{'' then Some ([TLBrace], LIdle)
      else if c = CHR ''}'' then Some ([TRBrace], LIdle)
      else if c = CHR ''['' then Some ([TLBracket], LIdle)
      else if c = CHR '']'' then Some ([TRBracket], LIdle)
      else if c = CHR '':'' then Some ([TColon], LIdle)
      else if c = CHR '','' then Some ([TComma], LIdle)
      else if c = CHR 0x22 then Some ([], LString [])
      else if c = CHR ''-'' \<or> is_digit c then Some ([], LNumber [c])
      else if is_letter c then Some ([], LWord [c])
      else None)"

definition lex_step :: "lex_state \<Rightarrow> char \<Rightarrow> (token list \<times> lex_state) option" where
  "lex_step st c =
     (case st of
        LIdle \<Rightarrow> lex_idle c
      | LString acc \<Rightarrow>
          if c = CHR 0x22 then Some ([TString (rev acc)], LIdle)
          else if c = CHR 0x5C then Some ([], LEscape (c # acc))
          else if of_char c < (32::nat) then None
          else Some ([], LString (c # acc))
      | LEscape acc \<Rightarrow>
          if c \<in> set (CHR 0x22 # CHR 0x5C # ''/bfnrt'') then Some ([], LString (c # acc))
          else if c = CHR ''u'' then Some ([], LHex 4 (c # acc))
          else None
      | LHex n acc \<Rightarrow>
          if is_hex c
          then (if n \<le> 1 then Some ([], LString (c # acc)) else Some ([], LHex (n - 1) (c # acc)))
          else None
      | LNumber acc \<Rightarrow>
          if is_number_char c then Some ([], LNumber (c # acc))
          else if valid_number (rev acc)
          then (case lex_idle c of
                  None \<Rightarrow> None
                | Some (ts, st') \<Rightarrow> Some (TNumber (rev acc) # ts, st'))
          else None
      | LWord acc \<Rightarrow>
          if is_letter c then Some ([], LWord (c # acc))
          else (case word_token (rev acc) of
                  None \<Rightarrow> None
                | Some t \<Rightarrow>
                    (case lex_idle c of
                       None \<Rightarrow> None
                     | Some (ts, st') \<Rightarrow> Some (t # ts, st'))))"

definition lex_end :: "lex_state \<Rightarrow> token list option" where
  "lex_end st =
     (case st of
        LIdle \<Rightarrow> Some []
      | LNumber acc \<Rightarrow> if valid_number (rev acc) then Some [TNumber (rev acc)] else None
      | LWord acc \<Rightarrow> map_option (\<lambda>t. [t]) (word_token (rev acc))
      | _ \<Rightarrow> None)"

fun lex :: "lex_state \<Rightarrow> string \<Rightarrow> token list option" where
  "lex st [] = lex_end st"
| "lex st (c # cs) =
     (case lex_step st c of
        None \<Rightarrow> None
      | Some (ts, st') \<Rightarrow> map_option (\<lambda>ts'. ts @ ts') (lex st' cs))"

datatype ctx =
    CArr "json list"
  | CObj "(string \<times> json) list"
  | CKey "(string \<times> json) list" string

datatype pstate = PValue | PFirstElem | PFirstKey | PKey | PColon | PNext | PDone json

definition maxNestingDepth :: nat where
  "maxNestingDepth = 10000"

definition complete :: "json \<Rightarrow> ctx list \<Rightarrow> (pstate \<times> ctx list) option" where
  "complete v stk =
     (case stk of
        [] \<Rightarrow> Some (PDone v, [])
      | CArr es # rest \<Rightarrow> Some (PNext, CArr (v # es) # rest)
      | CKey ms k # rest \<Rightarrow> Some (PNext, CObj ((k, v) # ms) # rest)
      | CObj ms # rest \<Rightarrow> None)"

definition begin_value :: "token \<Rightarrow> ctx list \<Rightarrow> (pstate \<times> ctx list) option" where
  "begin_value t stk =
     (case t of
        TString s \<Rightarrow> complete (JString s) stk
      | TNumber n \<Rightarrow> complete (JNumber n) stk
      | TTrue \<Rightarrow> complete (JBool True) stk
      | TFalse \<Rightarrow> complete (JBool False) stk
      | TNull \<Rightarrow> complete JNull stk
      | TLBracket \<Rightarrow> if length stk < maxNestingDepth then Some (PFirstElem, CArr [] # stk) else None
      | TLBrace \<Rightarrow> if length stk < maxNestingDepth then Some (PFirstKey, CObj [] # stk) else None
      | _ \<Rightarrow> None)"

definition take_key :: "token \<Rightarrow> ctx list \<Rightarrow> (pstate \<times> ctx list) option" where
  "take_key t stk =
     (case t of
        TString k \<Rightarrow> (case stk of CObj ms # rest \<Rightarrow> Some (PColon, CKey ms k # rest) | _ \<Rightarrow> None)
      | _ \<Rightarrow> None)"

definition close_array :: "ctx list \<Rightarrow> (pstate \<times> ctx list) option" where
  "close_array stk = (case stk of CArr es # rest \<Rightarrow> complete (JArray (rev es)) rest | _ \<Rightarrow> None)"

definition close_object :: "ctx list \<Rightarrow> (pstate \<times> ctx list) option" where
  "close_object stk = (case stk of CObj ms # rest \<Rightarrow> complete (JObject (rev ms)) rest | _ \<Rightarrow> None)"

definition parse_step :: "pstate \<Rightarrow> ctx list \<Rightarrow> token \<Rightarrow> (pstate \<times> ctx list) option" where
  "parse_step st stk t =
     (case st of
        PValue \<Rightarrow> begin_value t stk
      | PFirstElem \<Rightarrow> if t = TRBracket then close_array stk else begin_value t stk
      | PFirstKey \<Rightarrow> if t = TRBrace then close_object stk else take_key t stk
      | PKey \<Rightarrow> take_key t stk
      | PColon \<Rightarrow> if t = TColon then Some (PValue, stk) else None
      | PNext \<Rightarrow>
          (case stk of
             CArr es # rest \<Rightarrow>
               if t = TComma then Some (PValue, stk)
               else if t = TRBracket then close_array stk else None
           | CObj ms # rest \<Rightarrow>
               if t = TComma then Some (PKey, stk)
               else if t = TRBrace then close_object stk else None
           | _ \<Rightarrow> None)
      | PDone v \<Rightarrow> None)"

fun parse_tokens :: "pstate \<Rightarrow> ctx list \<Rightarrow> token list \<Rightarrow> json option" where
  "parse_tokens st stk [] = (case st of PDone v \<Rightarrow> Some v | _ \<Rightarrow> None)"
| "parse_tokens st stk (t # ts) =
     (case parse_step st stk t of
        None \<Rightarrow> None
      | Some (st', stk') \<Rightarrow> parse_tokens st' stk' ts)"

definition json_parse :: "string \<Rightarrow> json option" where
  "json_parse data =
     (case lex LIdle data of None \<Rightarrow> None | Some ts \<Rightarrow> parse_tokens PValue [] ts)"

subsection \<open>Decoding into Go values\<close>

text \<open>
  Four things are left to the library as parameters: unquoting a string that
  holds an escape or a byte outside printable ASCII, quoting such a string,
  the case folding that matches an object key with a field name when no field
  has exactly that name, and the parsing of an RFC 3339 time.

  A \<^verbatim>\<open>time.Time\<close> is the seconds and nanoseconds since the zero time and the
  offset of its zone; the client only stores it.
\<close>

datatype Time = Time int int int

definition zero_Time :: Time where
  "zero_Time = Time 0 0 0"

record json_lib =
  unquote_slow :: "string \<Rightarrow> string"
  quote_slow :: "string \<Rightarrow> string"
  foldName :: "string \<Rightarrow> string"
  parseStrictRFC3339 :: "string \<Rightarrow> Time option"

definition plain_char :: "char \<Rightarrow> bool" where
  "plain_char c =
     (c \<noteq> CHR 0x5C \<and> c \<noteq> CHR 0x22 \<and> 32 \<le> (of_char c :: nat) \<and> (of_char c :: nat) < 128)"

definition unquote :: "json_lib \<Rightarrow> string \<Rightarrow> string" where
  "unquote L raw = (if list_all plain_char raw then raw else unquote_slow L raw)"

definition html_safe :: "char \<Rightarrow> bool" where
  "html_safe c = (plain_char c \<and> c \<noteq> CHR ''<'' \<and> c \<noteq> CHR ''>'' \<and> c \<noteq> CHR ''&'')"

definition quote :: "json_lib \<Rightarrow> string \<Rightarrow> string" where
  "quote L s = (if list_all html_safe s then [CHR 0x22] @ s @ [CHR 0x22] else quote_slow L s)"

text \<open>
  The field an object key selects: the field with exactly that name, otherwise
  the first field whose folded name is the key's folded name.
\<close>

definition select_field :: "json_lib \<Rightarrow> string list \<Rightarrow> string \<Rightarrow> string option" where
  "select_field L names key =
     (if key \<in> set names then Some key
      else find (\<lambda>n. foldName L n = foldName L key) names)"

text \<open>
  Decoding stores into a value that exists already; \<open>None\<close> is a JSON value that
  does not fit the Go type. \<^verbatim>\<open>null\<close> leaves a string, an int, a time and a struct
  as they are, and makes a pointer and a slice nil.
\<close>

definition decode_string :: "json_lib \<Rightarrow> json \<Rightarrow> string \<Rightarrow> string option" where
  "decode_string L j old =
     (case j of JNull \<Rightarrow> Some old | JString raw \<Rightarrow> Some (unquote L raw) | _ \<Rightarrow> None)"

definition digits_value :: "string \<Rightarrow> nat" where
  "digits_value ds = foldl (\<lambda>n c. 10 * n + (of_char c - 48)) 0 ds"

text \<open>\<^verbatim>\<open>strconv.ParseInt(s, 10, 64)\<close> on a JSON number literal; \<^verbatim>\<open>int\<close> has 64 bits.\<close>

definition ParseInt :: "string \<Rightarrow> int option" where
  "ParseInt s =
     (let neg = (s \<noteq> [] \<and> hd s = CHR ''-'');
          ds = (if neg then tl s else s);
          i = (if neg then - int (digits_value ds) else int (digits_value ds))
      in if digits1 ds \<and> - (2 ^ 63) \<le> i \<and> i < 2 ^ 63 then Some i else None)"

definition decode_int :: "json \<Rightarrow> int \<Rightarrow> int option" where
  "decode_int j old =
     (case j of JNull \<Rightarrow> Some old | JNumber lit \<Rightarrow> ParseInt lit | _ \<Rightarrow> None)"

text \<open>\<^verbatim>\<open>Time.UnmarshalJSON\<close>: a JSON string, its bytes taken as they are.\<close>

definition decode_Time :: "json_lib \<Rightarrow> json \<Rightarrow> Time \<Rightarrow> Time option" where
  "decode_Time L j old =
     (case j of JNull \<Rightarrow> Some old | JString raw \<Rightarrow> parseStrictRFC3339 L raw | _ \<Rightarrow> None)"

text \<open>
  A slice is nil, or it has its elements and, behind them, what its backing
  array still holds from before: a slice that was longer and has been cut keeps
  the old elements there. Everything further behind is zero.
\<close>

datatype 'a slice = NilSlice | Slice "'a list" "'a list"


fun backing :: "'a slice \<Rightarrow> 'a list" where
  "backing NilSlice = []"
| "backing (Slice xs behind) = xs @ behind"

text \<open>
  An array into a slice: the element at each index is decoded into what the
  backing array holds at that index (the element that is there, an old element
  behind the length, or zero), the length becomes the number of elements, and
  an empty array gives a new empty slice, which is not nil.
\<close>

fun decode_elements ::
  "(json \<Rightarrow> 'a \<Rightarrow> 'a option) \<Rightarrow> 'a \<Rightarrow> json list \<Rightarrow> 'a list \<Rightarrow> 'a list option" where
  "decode_elements dec zero [] held = Some []"
| "decode_elements dec zero (e # es) held =
     (case dec e (case held of [] \<Rightarrow> zero | h # hs \<Rightarrow> h) of
        None \<Rightarrow> None
      | Some x \<Rightarrow>
          (case decode_elements dec zero es (tl held) of
             None \<Rightarrow> None
           | Some xs \<Rightarrow> Some (x # xs)))"

definition decode_slice ::
  "(json \<Rightarrow> 'a \<Rightarrow> 'a option) \<Rightarrow> 'a \<Rightarrow> json \<Rightarrow> 'a slice \<Rightarrow> 'a slice option" where
  "decode_slice dec zero j old =
     (case j of
        JNull \<Rightarrow> Some NilSlice
      | JArray js \<Rightarrow>
          (case decode_elements dec zero js (backing old) of
             None \<Rightarrow> None
           | Some xs \<Rightarrow>
               if js = [] then Some (Slice [] [])
               else Some (Slice xs (drop (length js) (backing old))))
      | _ \<Rightarrow> None)"

text \<open>A pointer (\<open>None\<close> is nil): a new zero value is allocated when it is nil.\<close>

definition decode_ptr ::
  "(json \<Rightarrow> 'a \<Rightarrow> 'a option) \<Rightarrow> 'a \<Rightarrow> json \<Rightarrow> 'a option \<Rightarrow> 'a option option" where
  "decode_ptr dec zero j old =
     (case j of
        JNull \<Rightarrow> Some None
      | _ \<Rightarrow> map_option Some (dec j (case old of None \<Rightarrow> zero | Some x \<Rightarrow> x)))"

text \<open>
  A struct: the members of the object in order, each stored into the field its
  key selects; a key that selects no field is skipped with its value.
\<close>

fun decode_members ::
  "json_lib \<Rightarrow> string list \<Rightarrow> (string \<Rightarrow> json \<Rightarrow> 'a \<Rightarrow> 'a option) \<Rightarrow> (string \<times> json) list \<Rightarrow> 'a
     \<Rightarrow> 'a option" where
  "decode_members L names store [] a = Some a"
| "decode_members L names store ((k, v) # ms) a =
     (case select_field L names (unquote L k) of
        None \<Rightarrow> decode_members L names store ms a
      | Some name \<Rightarrow>
          (case store name v a of
             None \<Rightarrow> None
           | Some a' \<Rightarrow> decode_members L names store ms a'))"

definition decode_struct ::
  "json_lib \<Rightarrow> string list \<Rightarrow> (string \<Rightarrow> json \<Rightarrow> 'a \<Rightarrow> 'a option) \<Rightarrow> json \<Rightarrow> 'a \<Rightarrow> 'a option" where
  "decode_struct L names store j old =
     (case j of
        JNull \<Rightarrow> Some old
      | JObject ms \<Rightarrow> decode_members L names store ms old
      | _ \<Rightarrow> None)"

text \<open>
  \<^verbatim>\<open>json.Unmarshal(data, &v)\<close>: a syntax error when the input is not a JSON text,
  otherwise the error of a value that does not fit (the library goes on decoding
  after such a value and reports the error at the end; the client drops what was
  decoded), otherwise \<open>v\<close> as decoded.
\<close>

definition json_Unmarshal ::
  "(json \<Rightarrow> 'a \<Rightarrow> 'a option) \<Rightarrow> string \<Rightarrow> 'a \<Rightarrow> go_error + 'a" where
  "json_Unmarshal dec data v =
     (case json_parse data of
        None \<Rightarrow> Inl (LibError SyntaxError)
      | Some j \<Rightarrow>
          (case dec j v of
             None \<Rightarrow> Inl (LibError UnmarshalValueError)
           | Some v' \<Rightarrow> Inr v'))"

fun join_commas :: "string list \<Rightarrow> string" where
  "join_commas [] = []"
| "join_commas [x] = x"
| "join_commas (x # y # ys) = x @ '','' @ join_commas (y # ys)"

section \<open>models.go\<close>

record Podcast =
  Podcast_ID :: string
  Podcast_Title :: string
  Podcast_Description :: string
  Podcast_URL :: string
  Podcast_Tags :: "string slice"
  Podcast_CreatedAt :: Time
  Podcast_UpdatedAt :: Time

record Article =
  Article_ID :: string
  Article_Title :: string
  Article_Description :: string
  Article_URL :: string
  Article_Tags :: "string slice"
  Article_CreatedAt :: Time
  Article_UpdatedAt :: Time

record CreatePodcastRequest =
  CreatePodcast_Title :: string
  CreatePodcast_Description :: string
  CreatePodcast_URL :: string
  CreatePodcast_Tags :: "string slice"

record CreateArticleRequest =
  CreateArticle_Title :: string
  CreateArticle_Description :: string
  CreateArticle_URL :: string
  CreateArticle_Tags :: "string slice"

record PodcastResponse =
  Response_Podcast :: "Podcast option"

record ArticleResponse =
  Response_Article :: "Article option"

record PodcastsResponse =
  Response_Podcasts :: "Podcast slice"

record ArticlesResponse =
  Response_Articles :: "Article slice"

record PaginatedPodcastsResponse =
  Paginated_Podcasts :: "Podcast slice"
  Podcasts_Total :: int
  Podcasts_Page :: int
  Podcasts_Limit :: int

record PaginatedArticlesResponse =
  Paginated_Articles :: "Article slice"
  Articles_Total :: int
  Articles_Page :: int
  Articles_Limit :: int

record HealthResponse =
  Health_Status :: string
  Health_Database :: string
  Health_Timestamp :: Time

text \<open>The zero values, as \<^verbatim>\<open>var response T\<close> makes them.\<close>

definition zero_Podcast :: Podcast where
  "zero_Podcast =
     \<lparr>Podcast_ID = [], Podcast_Title = [], Podcast_Description = [], Podcast_URL = [],
      Podcast_Tags = NilSlice, Podcast_CreatedAt = zero_Time, Podcast_UpdatedAt = zero_Time\<rparr>"

definition zero_Article :: Article where
  "zero_Article =
     \<lparr>Article_ID = [], Article_Title = [], Article_Description = [], Article_URL = [],
      Article_Tags = NilSlice, Article_CreatedAt = zero_Time, Article_UpdatedAt = zero_Time\<rparr>"

definition zero_PaginatedPodcastsResponse :: PaginatedPodcastsResponse where
  "zero_PaginatedPodcastsResponse =
     \<lparr>Paginated_Podcasts = NilSlice, Podcasts_Total = 0, Podcasts_Page = 0, Podcasts_Limit = 0\<rparr>"

definition zero_PaginatedArticlesResponse :: PaginatedArticlesResponse where
  "zero_PaginatedArticlesResponse =
     \<lparr>Paginated_Articles = NilSlice, Articles_Total = 0, Articles_Page = 0, Articles_Limit = 0\<rparr>"

definition zero_HealthResponse :: HealthResponse where
  "zero_HealthResponse = \<lparr>Health_Status = [], Health_Database = [], Health_Timestamp = zero_Time\<rparr>"

text \<open>The \<^verbatim>\<open>json:"..."\<close> tags of each struct, in the order of its fields.\<close>

definition entity_names :: "string list" where
  "entity_names =
     [''id'', ''title'', ''description'', ''url'', ''tags'', ''created_at'', ''updated_at'']"

definition store_Podcast :: "json_lib \<Rightarrow> string \<Rightarrow> json \<Rightarrow> Podcast \<Rightarrow> Podcast option" where
  "store_Podcast L name v p =
     (if name = ''id''
        then map_option (\<lambda>x. p\<lparr>Podcast_ID := x\<rparr>) (decode_string L v (Podcast_ID p))
      else if name = ''title''
        then map_option (\<lambda>x. p\<lparr>Podcast_Title := x\<rparr>) (decode_string L v (Podcast_Title p))
      else if name = ''description''
        then map_option (\<lambda>x. p\<lparr>Podcast_Description := x\<rparr>) (decode_string L v (Podcast_Description p))
      else if name = ''url''
        then map_option (\<lambda>x. p\<lparr>Podcast_URL := x\<rparr>) (decode_string L v (Podcast_URL p))
      else if name = ''tags''
        then map_option (\<lambda>x. p\<lparr>Podcast_Tags := x\<rparr>)
               (decode_slice (decode_string L) [] v (Podcast_Tags p))
      else if name = ''created_at''
        then map_option (\<lambda>x. p\<lparr>Podcast_CreatedAt := x\<rparr>) (decode_Time L v (Podcast_CreatedAt p))
      else if name = ''updated_at''
        then map_option (\<lambda>x. p\<lparr>Podcast_UpdatedAt := x\<rparr>) (decode_Time L v (Podcast_UpdatedAt p))
      else Some p)"

definition decode_Podcast :: "json_lib \<Rightarrow> json \<Rightarrow> Podcast \<Rightarrow> Podcast option" where
  "decode_Podcast L = decode_struct L entity_names (store_Podcast L)"

definition store_Article :: "json_lib \<Rightarrow> string \<Rightarrow> json \<Rightarrow> Article \<Rightarrow> Article option" where
  "store_Article L name v a =
     (if name = ''id''
        then map_option (\<lambda>x. a\<lparr>Article_ID := x\<rparr>) (decode_string L v (Article_ID a))
      else if name = ''title''
        then map_option (\<lambda>x. a\<lparr>Article_Title := x\<rparr>) (decode_string L v (Article_Title a))
      else if name = ''description''
        then map_option (\<lambda>x. a\<lparr>Article_Description := x\<rparr>) (decode_string L v (Article_Description a))
      else if name = ''url''
        then map_option (\<lambda>x. a\<lparr>Article_URL := x\<rparr>) (decode_string L v (Article_URL a))
      else if name = ''tags''
        then map_option (\<lambda>x. a\<lparr>Article_Tags := x\<rparr>)
               (decode_slice (decode_string L) [] v (Article_Tags a))
      else if name = ''created_at''
        then map_option (\<lambda>x. a\<lparr>Article_CreatedAt := x\<rparr>) (decode_Time L v (Article_CreatedAt a))
      else if name = ''updated_at''
        then map_option (\<lambda>x. a\<lparr>Article_UpdatedAt := x\<rparr>) (decode_Time L v (Article_UpdatedAt a))
      else Some a)"

definition decode_Article :: "json_lib \<Rightarrow> json \<Rightarrow> Article \<Rightarrow> Article option" where
  "decode_Article L = decode_struct L entity_names (store_Article L)"

definition store_PodcastResponse ::
  "json_lib \<Rightarrow> string \<Rightarrow> json \<Rightarrow> PodcastResponse \<Rightarrow> PodcastResponse option" where
  "store_PodcastResponse L name v r =
     (if name = ''podcast''
        then map_option (\<lambda>x. r\<lparr>Response_Podcast := x\<rparr>)
               (decode_ptr (decode_Podcast L) zero_Podcast v (Response_Podcast r))
      else Some r)"

definition decode_PodcastResponse ::
  "json_lib \<Rightarrow> json \<Rightarrow> PodcastResponse \<Rightarrow> PodcastResponse option" where
  "decode_PodcastResponse L = decode_struct L [''podcast''] (store_PodcastResponse L)"

definition store_ArticleResponse ::
  "json_lib \<Rightarrow> string \<Rightarrow> json \<Rightarrow> ArticleResponse \<Rightarrow> ArticleResponse option" where
  "store_ArticleResponse L name v r =
     (if name = ''article''
        then map_option (\<lambda>x. r\<lparr>Response_Article := x\<rparr>)
               (decode_ptr (decode_Article L) zero_Article v (Response_Article r))
      else Some r)"

definition decode_ArticleResponse ::
  "json_lib \<Rightarrow> json \<Rightarrow> ArticleResponse \<Rightarrow> ArticleResponse option" where
  "decode_ArticleResponse L = decode_struct L [''article''] (store_ArticleResponse L)"

definition store_PodcastsResponse ::
  "json_lib \<Rightarrow> string \<Rightarrow> json \<Rightarrow> PodcastsResponse \<Rightarrow> PodcastsResponse option" where
  "store_PodcastsResponse L name v r =
     (if name = ''podcasts''
        then map_option (\<lambda>x. r\<lparr>Response_Podcasts := x\<rparr>)
               (decode_slice (decode_Podcast L) zero_Podcast v (Response_Podcasts r))
      else Some r)"

definition decode_PodcastsResponse ::
  "json_lib \<Rightarrow> json \<Rightarrow> PodcastsResponse \<Rightarrow> PodcastsResponse option" where
  "decode_PodcastsResponse L = decode_struct L [''podcasts''] (store_PodcastsResponse L)"

definition store_ArticlesResponse ::
  "json_lib \<Rightarrow> string \<Rightarrow> json \<Rightarrow> ArticlesResponse \<Rightarrow> ArticlesResponse option" where
  "store_ArticlesResponse L name v r =
     (if name = ''articles''
        then map_option (\<lambda>x. r\<lparr>Response_Articles := x\<rparr>)
               (decode_slice (decode_Article L) zero_Article v (Response_Articles r))
      else Some r)"

definition decode_ArticlesResponse ::
  "json_lib \<Rightarrow> json \<Rightarrow> ArticlesResponse \<Rightarrow> ArticlesResponse option" where
  "decode_ArticlesResponse L = decode_struct L [''articles''] (store_ArticlesResponse L)"

definition store_PaginatedPodcastsResponse ::
  "json_lib \<Rightarrow> string \<Rightarrow> json \<Rightarrow> PaginatedPodcastsResponse \<Rightarrow> PaginatedPodcastsResponse option" where
  "store_PaginatedPodcastsResponse L name v r =
     (if name = ''podcasts''
        then map_option (\<lambda>x. r\<lparr>Paginated_Podcasts := x\<rparr>)
               (decode_slice (decode_Podcast L) zero_Podcast v (Paginated_Podcasts r))
      else if name = ''total''
        then map_option (\<lambda>x. r\<lparr>Podcasts_Total := x\<rparr>) (decode_int v (Podcasts_Total r))
      else if name = ''page''
        then map_option (\<lambda>x. r\<lparr>Podcasts_Page := x\<rparr>) (decode_int v (Podcasts_Page r))
      else if name = ''limit''
        then map_option (\<lambda>x. r\<lparr>Podcasts_Limit := x\<rparr>) (decode_int v (Podcasts_Limit r))
      else Some r)"

definition decode_PaginatedPodcastsResponse ::
  "json_lib \<Rightarrow> json \<Rightarrow> PaginatedPodcastsResponse \<Rightarrow> PaginatedPodcastsResponse option" where
  "decode_PaginatedPodcastsResponse L =
     decode_struct L [''podcasts'', ''total'', ''page'', ''limit''] (store_PaginatedPodcastsResponse L)"

definition store_PaginatedArticlesResponse ::
  "json_lib \<Rightarrow> string \<Rightarrow> json \<Rightarrow> PaginatedArticlesResponse \<Rightarrow> PaginatedArticlesResponse option" where
  "store_PaginatedArticlesResponse L name v r =
     (if name = ''articles''
        then map_option (\<lambda>x. r\<lparr>Paginated_Articles := x\<rparr>)
               (decode_slice (decode_Article L) zero_Article v (Paginated_Articles r))
      else if name = ''total''
        then map_option (\<lambda>x. r\<lparr>Articles_Total := x\<rparr>) (decode_int v (Articles_Total r))
      else if name = ''page''
        then map_option (\<lambda>x. r\<lparr>Articles_Page := x\<rparr>) (decode_int v (Articles_Page r))
      else if name = ''limit''
        then map_option (\<lambda>x. r\<lparr>Articles_Limit := x\<rparr>) (decode_int v (Articles_Limit r))
      else Some r)"

definition decode_PaginatedArticlesResponse ::
  "json_lib \<Rightarrow> json \<Rightarrow> PaginatedArticlesResponse \<Rightarrow> PaginatedArticlesResponse option" where
  "decode_PaginatedArticlesResponse L =
     decode_struct L [''articles'', ''total'', ''page'', ''limit''] (store_PaginatedArticlesResponse L)"

definition store_HealthResponse ::
  "json_lib \<Rightarrow> string \<Rightarrow> json \<Rightarrow> HealthResponse \<Rightarrow> HealthResponse option" where
  "store_HealthResponse L name v r =
     (if name = ''status''
        then map_option (\<lambda>x. r\<lparr>Health_Status := x\<rparr>) (decode_string L v (Health_Status r))
      else if name = ''database''
        then map_option (\<lambda>x. r\<lparr>Health_Database := x\<rparr>) (decode_string L v (Health_Database r))
      else if name = ''timestamp''
        then map_option (\<lambda>x. r\<lparr>Health_Timestamp := x\<rparr>) (decode_Time L v (Health_Timestamp r))
      else Some r)"

definition decode_HealthResponse ::
  "json_lib \<Rightarrow> json \<Rightarrow> HealthResponse \<Rightarrow> HealthResponse option" where
  "decode_HealthResponse L =
     decode_struct L [''status'', ''database'', ''timestamp''] (store_HealthResponse L)"

text \<open>
  \<^verbatim>\<open>json.Marshal\<close> of the two request structs: the fields in order, \<^verbatim>\<open>omitempty\<close>
  leaving out an empty description and a nil or empty tag slice. It cannot fail.
\<close>

definition Marshal_CreatePodcastRequest ::
  "json_lib \<Rightarrow> CreatePodcastRequest \<Rightarrow> go_error + string" where
  \<open>Marshal_CreatePodcastRequest L r =
     Inr (''{"title":'' @ quote L (CreatePodcast_Title r)
          @ (if CreatePodcast_Description r = [] then []
             else '',"description":'' @ quote L (CreatePodcast_Description r))
          @ '',"url":'' @ quote L (CreatePodcast_URL r)
          @ (case CreatePodcast_Tags r of
               NilSlice \<Rightarrow> []
             | Slice ts behind \<Rightarrow>
                 if ts = [] then [] else '',"tags":['' @ join_commas (map (quote L) ts) @ '']'')
          @ ''}'')\<close>

definition Marshal_CreateArticleRequest ::
  "json_lib \<Rightarrow> CreateArticleRequest \<Rightarrow> go_error + string" where
  \<open>Marshal_CreateArticleRequest L r =
     Inr (''{"title":'' @ quote L (CreateArticle_Title r)
          @ (if CreateArticle_Description r = [] then []
             else '',"description":'' @ quote L (CreateArticle_Description r))
          @ '',"url":'' @ quote L (CreateArticle_URL r)
          @ (case CreateArticle_Tags r of
               NilSlice \<Rightarrow> []
             | Slice ts behind \<Rightarrow>
                 if ts = [] then [] else '',"tags":['' @ join_commas (map (quote L) ts) @ '']'')
          @ ''}'')\<close>

section \<open>client.go\<close>

record Client =
  url :: string
  apiKey :: string

text \<open>
  \<^verbatim>\<open>New\<close> takes the two strings only: it has no access to the transport, so it
  cannot perform a request.
\<close>

definition New :: "string \<Rightarrow> string \<Rightarrow> go_error + Client" where
  "New u k =
     (if u = [] then Inl (ErrorString ''url is empty'')
      else if k = [] then Inl (ErrorString ''apiKey is empty'')
      else Inr \<lparr>url = u, apiKey = k\<rparr>)"

subsection \<open>Requests, responses and the transport\<close>

text \<open>
  A request as the client builds it: \<open>URL\<close> is the string handed to
  \<^verbatim>\<open>http.NewRequest\<close>, \<open>Header\<close> what \<^verbatim>\<open>req.Header\<close> holds, \<open>Body\<close> the bytes of the
  body, if there is one. What \<^verbatim>\<open>net/http\<close> makes of them on the wire is its own
  business.
\<close>

record Request =
  Method :: string
  URL :: string
  Header :: "(string \<times> string list) list"
  Body :: "string option"

text \<open>
  A response as the client looks at it: the status code, and what
  \<^verbatim>\<open>io.ReadAll(res.Body)\<close> gives.
\<close>

record Response =
  StatusCode :: int
  ReadAll_Body :: "go_error + string"

text \<open>
  What the client code does not decide is a parameter: whether
  \<^verbatim>\<open>http.NewRequest\<close> accepts the URL string, and what \<^verbatim>\<open>c.client.Do(req)\<close>
  returns. The transport runs in a world \<open>'w\<close> (the network, the remote service,
  a mock) that it may change. The library parameters of \<^verbatim>\<open>encoding/json\<close> travel
  with them.
\<close>

record 'w env =
  NewRequest_error :: "string \<Rightarrow> go_error option"
  client_Do :: "Request \<Rightarrow> 'w \<Rightarrow> (go_error + Response) \<times> 'w"
  encoding_json :: json_lib

definition http_NewRequest ::
  "'w env \<Rightarrow> string \<Rightarrow> string \<Rightarrow> string option \<Rightarrow> go_error + Request" where
  "http_NewRequest env method u body =
     (case NewRequest_error env u of
        Some err \<Rightarrow> Inl err
      | None \<Rightarrow> Inr \<lparr>Method = method, URL = u, Header = [], Body = body\<rparr>)"

text \<open>
  \<^verbatim>\<open>req.Header.Set(key, value)\<close>: the key gets the single value, replacing what it
  had. Both keys the client sets are already in canonical form.
\<close>

fun header_set :: "string \<Rightarrow> string \<Rightarrow> (string \<times> string list) list \<Rightarrow> (string \<times> string list) list" where
  "header_set key v [] = [(key, [v])]"
| "header_set key v ((k, vs) # h) =
     (if k = key then (key, [v]) # h else (k, vs) # header_set key v h)"

definition Header_Set :: "string \<Rightarrow> string \<Rightarrow> Request \<Rightarrow> Request" where
  "Header_Set key v req = req\<lparr>Header := header_set key v (Header req)\<rparr>"

definition StatusOK :: int where
  "StatusOK = 200"

definition get :: "'w env \<Rightarrow> Client \<Rightarrow> string \<Rightarrow> 'w \<Rightarrow> (go_error + string) \<times> 'w" where
  "get env c endpoint w =
     (case http_NewRequest env ''GET'' (url c @ endpoint) None of
        Inl err \<Rightarrow> (Inl err, w)
      | Inr req0 \<Rightarrow>
          (let req1 = Header_Set ''Content-Type'' ''application/json'' req0;
               req = Header_Set ''Authorization'' (''Bearer '' @ apiKey c) req1
           in case client_Do env req w of
                (Inl err, w') \<Rightarrow> (Inl err, w')
              | (Inr res, w') \<Rightarrow>
                  (case ReadAll_Body res of
                     Inl err \<Rightarrow> (Inl err, w')
                   | Inr body \<Rightarrow>
                       if StatusCode res \<noteq> StatusOK
                       then (Inl (ErrorString (''unexpected status code: ''
                                    @ Sprint_d (StatusCode res) @ '', body: '' @ body)), w')
                       else (Inr body, w'))))"

text \<open>
  \<^verbatim>\<open>post\<close> takes any payload; \<open>Marshal\<close> is \<^verbatim>\<open>json.Marshal\<close> at the payload's type.
\<close>

definition post ::
  "'w env \<Rightarrow> ('p \<Rightarrow> go_error + string) \<Rightarrow> Client \<Rightarrow> string \<Rightarrow> 'p \<Rightarrow> 'w
     \<Rightarrow> (go_error + string) \<times> 'w" where
  "post env Marshal c endpoint payload w =
     (case Marshal payload of
        Inl err \<Rightarrow> (Inl (WrapError ''error marshalling data to JSON: '' err), w)
      | Inr jsonData \<Rightarrow>
          (case http_NewRequest env ''POST'' (url c @ endpoint) (Some jsonData) of
             Inl err \<Rightarrow> (Inl (WrapError ''error creating request: '' err), w)
           | Inr req0 \<Rightarrow>
               (let req1 = Header_Set ''Content-Type'' ''application/json'' req0;
                    req = Header_Set ''Authorization'' (''Bearer '' @ apiKey c) req1
                in case client_Do env req w of
                     (Inl err, w') \<Rightarrow> (Inl (WrapError ''error sending request: '' err), w')
                   | (Inr res, w') \<Rightarrow>
                       (case ReadAll_Body res of
                          Inl err \<Rightarrow> (Inl (WrapError ''error reading response body: '' err), w')
                        | Inr body \<Rightarrow>
                            if StatusCode res \<noteq> StatusOK
                            then (Inl (ErrorString (''unexpected status code: ''
                                         @ Sprint_d (StatusCode res) @ '', body: '' @ body)), w')
                            else (Inr body, w')))))"

text \<open>
  A transport that also records each request handed to it, in order, as a mock
  transport does. The transport underneath is any transport.
\<close>

definition recording ::
  "'w env \<Rightarrow> ('w \<times> Request list) env" where
  "recording env =
     \<lparr>NewRequest_error = NewRequest_error env,
      client_Do = (\<lambda>req (w, log).
         case client_Do env req w of (r, w') \<Rightarrow> (r, (w', log @ [req]))),
      encoding_json = encoding_json env\<rparr>"

section \<open>The resource operations\<close>

text \<open>
  A result pair \<^verbatim>\<open>(value, error)\<close> is a sum: every \<^verbatim>\<open>return nil, err\<close> is \<open>Inl err\<close>,
  every \<^verbatim>\<open>return value, nil\<close> is \<open>Inr value\<close>, where a pointer or slice value may
  itself be nil (\<open>None\<close>). \<^verbatim>\<open>fmt.Sprintf\<close> with \<^verbatim>\<open>%s\<close> puts its argument into the
  path as it is.
\<close>

subsection \<open>Articles\<close>

definition createArticleEndpoint :: string where
  "createArticleEndpoint = ''/api/v1/articles''"

definition getArticleEndpoint :: "string \<Rightarrow> string" where
  "getArticleEndpoint ident = ''/api/v1/articles/'' @ ident"

definition searchArticlesEndpoint :: "string \<Rightarrow> string" where
  "searchArticlesEndpoint tag = ''/api/v1/articles/search/'' @ tag"

definition searchArticlesPaginatedEndpoint :: "string \<Rightarrow> string" where
  "searchArticlesPaginatedEndpoint tag = ''/api/v1/articles/search/'' @ tag @ ''/paginated''"

definition CreateArticle ::
  "'w env \<Rightarrow> Client \<Rightarrow> CreateArticleRequest \<Rightarrow> 'w \<Rightarrow> (go_error + Article option) \<times> 'w" where
  "CreateArticle env c request w =
     (case post env (Marshal_CreateArticleRequest (encoding_json env)) c createArticleEndpoint request w of
        (Inl err, w') \<Rightarrow> (Inl (WrapError ''error creating article: '' err), w')
      | (Inr responseData, w') \<Rightarrow>
          (case json_Unmarshal (decode_ArticleResponse (encoding_json env)) responseData
                  \<lparr>Response_Article = None\<rparr> of
             Inl err \<Rightarrow> (Inl (WrapError ''error unmarshalling response data: '' err), w')
           | Inr response \<Rightarrow> (Inr (Response_Article response), w')))"

definition GetArticle ::
  "'w env \<Rightarrow> Client \<Rightarrow> string \<Rightarrow> 'w \<Rightarrow> (go_error + Article option) \<times> 'w" where
  "GetArticle env c ident w =
     (let endpoint = getArticleEndpoint ident
      in case get env c endpoint w of
           (Inl err, w') \<Rightarrow> (Inl (WrapError ''error retrieving article: '' err), w')
         | (Inr responseData, w') \<Rightarrow>
             (case json_Unmarshal (decode_ArticleResponse (encoding_json env)) responseData
                     \<lparr>Response_Article = None\<rparr> of
                Inl err \<Rightarrow> (Inl (WrapError ''error unmarshalling response data: '' err), w')
              | Inr response \<Rightarrow> (Inr (Response_Article response), w')))"

definition SearchArticles ::
  "'w env \<Rightarrow> Client \<Rightarrow> string \<Rightarrow> 'w \<Rightarrow> (go_error + Article slice) \<times> 'w" where
  "SearchArticles env c tag w =
     (let endpoint = searchArticlesEndpoint tag
      in case get env c endpoint w of
           (Inl err, w') \<Rightarrow> (Inl (WrapError ''error searching articles: '' err), w')
         | (Inr responseData, w') \<Rightarrow>
             (case json_Unmarshal (decode_ArticlesResponse (encoding_json env)) responseData
                     \<lparr>Response_Articles = NilSlice\<rparr> of
                Inl err \<Rightarrow> (Inl (WrapError ''error unmarshalling response data: '' err), w')
              | Inr response \<Rightarrow> (Inr (Response_Articles response), w')))"

definition SearchArticlesPaginated ::
  "'w env \<Rightarrow> Client \<Rightarrow> string \<Rightarrow> int \<Rightarrow> int \<Rightarrow> 'w
     \<Rightarrow> (go_error + PaginatedArticlesResponse) \<times> 'w" where
  "SearchArticlesPaginated env c tag page limit w =
     (let endpoint0 = searchArticlesPaginatedEndpoint tag;
          endpoint = endpoint0 @ ''?page='' @ Sprint_d page @ ''&limit='' @ Sprint_d limit
      in case get env c endpoint w of
           (Inl err, w') \<Rightarrow> (Inl (WrapError ''error searching articles with pagination: '' err), w')
         | (Inr responseData, w') \<Rightarrow>
             (case json_Unmarshal (decode_PaginatedArticlesResponse (encoding_json env)) responseData
                     zero_PaginatedArticlesResponse of
                Inl err \<Rightarrow> (Inl (WrapError ''error unmarshalling response data: '' err), w')
              | Inr response \<Rightarrow> (Inr response, w')))"

subsection \<open>Podcasts\<close>

definition createPodcastEndpoint :: string where
  "createPodcastEndpoint = ''/api/v1/podcasts''"

definition getPodcastEndpoint :: "string \<Rightarrow> string" where
  "getPodcastEndpoint ident = ''/api/v1/podcasts/'' @ ident"

definition searchPodcastsEndpoint :: "string \<Rightarrow> string" where
  "searchPodcastsEndpoint tag = ''/api/v1/podcasts/search/'' @ tag"

definition searchPodcastsPaginatedEndpoint :: "string \<Rightarrow> string" where
  "searchPodcastsPaginatedEndpoint tag = ''/api/v1/podcasts/search/'' @ tag @ ''/paginated''"

definition CreatePodcast ::
  "'w env \<Rightarrow> Client \<Rightarrow> CreatePodcastRequest \<Rightarrow> 'w \<Rightarrow> (go_error + Podcast option) \<times> 'w" where
  "CreatePodcast env c request w =
     (case post env (Marshal_CreatePodcastRequest (encoding_json env)) c createPodcastEndpoint request w of
        (Inl err, w') \<Rightarrow> (Inl (WrapError ''error creating podcast: '' err), w')
      | (Inr responseData, w') \<Rightarrow>
          (case json_Unmarshal (decode_PodcastResponse (encoding_json env)) responseData
                  \<lparr>Response_Podcast = None\<rparr> of
             Inl err \<Rightarrow> (Inl (WrapError ''error unmarshalling response data: '' err), w')
           | Inr response \<Rightarrow> (Inr (Response_Podcast response), w')))"

definition GetPodcast ::
  "'w env \<Rightarrow> Client \<Rightarrow> string \<Rightarrow> 'w \<Rightarrow> (go_error + Podcast option) \<times> 'w" where
  "GetPodcast env c ident w =
     (let endpoint = getPodcastEndpoint ident
      in case get env c endpoint w of
           (Inl err, w') \<Rightarrow> (Inl (WrapError ''error retrieving podcast: '' err), w')
         | (Inr responseData, w') \<Rightarrow>
             (case json_Unmarshal (decode_PodcastResponse (encoding_json env)) responseData
                     \<lparr>Response_Podcast = None\<rparr> of
                Inl err \<Rightarrow> (Inl (WrapError ''error unmarshalling response data: '' err), w')
              | Inr response \<Rightarrow> (Inr (Response_Podcast response), w')))"

definition SearchPodcasts ::
  "'w env \<Rightarrow> Client \<Rightarrow> string \<Rightarrow> 'w \<Rightarrow> (go_error + Podcast slice) \<times> 'w" where
  "SearchPodcasts env c tag w =
     (let endpoint = searchPodcastsEndpoint tag
      in case get env c endpoint w of
           (Inl err, w') \<Rightarrow> (Inl (WrapError ''error searching podcasts: '' err), w')
         | (Inr responseData, w') \<Rightarrow>
             (case json_Unmarshal (decode_PodcastsResponse (encoding_json env)) responseData
                     \<lparr>Response_Podcasts = NilSlice\<rparr> of
                Inl err \<Rightarrow> (Inl (WrapError ''error unmarshalling response data: '' err), w')
              | Inr response \<Rightarrow> (Inr (Response_Podcasts response), w')))"

definition SearchPodcastsPaginated ::
  "'w env \<Rightarrow> Client \<Rightarrow> string \<Rightarrow> int \<Rightarrow> int \<Rightarrow> 'w
     \<Rightarrow> (go_error + PaginatedPodcastsResponse) \<times> 'w" where
  "SearchPodcastsPaginated env c tag page limit w =
     (let endpoint0 = searchPodcastsPaginatedEndpoint tag;
          endpoint = endpoint0 @ ''?page='' @ Sprint_d page @ ''&limit='' @ Sprint_d limit
      in case get env c endpoint w of
           (Inl err, w') \<Rightarrow> (Inl (WrapError ''error searching podcasts with pagination: '' err), w')
         | (Inr responseData, w') \<Rightarrow>
             (case json_Unmarshal (decode_PaginatedPodcastsResponse (encoding_json env)) responseData
                     zero_PaginatedPodcastsResponse of
                Inl err \<Rightarrow> (Inl (WrapError ''error unmarshalling response data: '' err), w')
              | Inr response \<Rightarrow> (Inr response, w')))"

subsection \<open>health.go\<close>

definition healthEndpoint :: string where
  "healthEndpoint = ''/health''"

definition GetHealth :: "'w env \<Rightarrow> Client \<Rightarrow> 'w \<Rightarrow> (go_error + HealthResponse) \<times> 'w" where
  "GetHealth env c w =
     (case get env c healthEndpoint w of
        (Inl err, w') \<Rightarrow> (Inl (WrapError ''error retrieving health status: '' err), w')
      | (Inr responseData, w') \<Rightarrow>
          (case json_Unmarshal (decode_HealthResponse (encoding_json env)) responseData
                  zero_HealthResponse of
             Inl err \<Rightarrow> (Inl (WrapError ''error unmarshalling response data: '' err), w')
           | Inr response \<Rightarrow> (Inr response, w')))"

subsection \<open>The older \<^verbatim>\<open>CreateArticle\<close>, which returns an error only\<close>

text \<open>
  Its request type \<^verbatim>\<open>models.DataWarehouseCreateArticleRequest\<close> belongs to another
  module: the payload is of any type \<open>'p\<close>, and \<open>Marshal\<close> is \<^verbatim>\<open>json.Marshal\<close> at that
  type. \<open>None\<close> is the nil error.
\<close>

definition CreateArticle_legacy ::
  "'w env \<Rightarrow> ('p \<Rightarrow> go_error + string) \<Rightarrow> Client \<Rightarrow> 'p \<Rightarrow> 'w \<Rightarrow> go_error option \<times> 'w" where
  "CreateArticle_legacy env Marshal c request w =
     (case post env Marshal c createArticleEndpoint request w of
        (Inl err, w') \<Rightarrow> (Some (WrapError ''error creating article: '' err), w')
      | (Inr responseData, w') \<Rightarrow> (None, w'))"

text \<open>
  The older \<^verbatim>\<open>CreatePodcast\<close> of \<^verbatim>\<open>podcast.go\<close>, of the same shape. Its last line reads
  \<^verbatim>\<open>returnnil\<close> in the file; it is taken as the \<^verbatim>\<open>return nil\<close> of its twin.
\<close>

definition CreatePodcast_legacy ::
  "'w env \<Rightarrow> ('p \<Rightarrow> go_error + string) \<Rightarrow> Client \<Rightarrow> 'p \<Rightarrow> 'w \<Rightarrow> go_error option \<times> 'w" where
  "CreatePodcast_legacy env Marshal c request w =
     (case post env Marshal c createPodcastEndpoint request w of
        (Inl err, w') \<Rightarrow> (Some (WrapError ''error creating podcast: '' err), w')
      | (Inr responseData, w') \<Rightarrow> (None, w'))"

section \<open>Instances for the examples\<close>

text \<open>
  The library parameters: folding is upper-casing the ASCII letters, one timestamp
  parses (2024-01-01T00:00:00Z, in seconds since the zero time), and the slow
  paths of quoting and unquoting, which the examples never reach, leave the
  string as it is.
\<close>

definition upper_ascii :: "char \<Rightarrow> char" where
  "upper_ascii c = (if is_letter c then char_of (of_char c - (32::nat)) else c)"

definition example_json :: json_lib where
  "example_json =
     \<lparr>unquote_slow = (\<lambda>s. s),
      quote_slow = (\<lambda>s. s),
      foldName = map upper_ascii,
      parseStrictRFC3339 =
        (\<lambda>s. if s = ''2024-01-01T00:00:00Z'' then Some (Time 63839664000 0 0) else None)\<rparr>"

text \<open>
  A transport for the examples: it accepts every URL, answers every request
  with the given status code and body, and counts the requests it served.
\<close>

definition example_env :: "int \<Rightarrow> string \<Rightarrow> nat env" where
  "example_env code body =
     \<lparr>NewRequest_error = (\<lambda>u. None),
      client_Do = (\<lambda>req w. (Inr \<lparr>StatusCode = code, ReadAll_Body = Inr body\<rparr>, Suc w)),
      encoding_json = example_json\<rparr>"

definition example_client :: Client where
  "example_client = \<lparr>url = ''http://localhost:8080'', apiKey = ''secret''\<rparr>"

definition example_article_body :: string where
  \<open>example_article_body =
     ''{"article":{"id":"1","title":"T","url":"https://x","tags":["a","b"],"description":"d","created_at":"2024-01-01T00:00:00Z","updated_at":null,"extra":[1,2]}}''\<close>


text \<open>A transport whose answer to the \<open>n\<close>-th request comes from a script.\<close>

definition example_scripted_env :: "(nat \<Rightarrow> go_error + Response) \<Rightarrow> nat env" where
  "example_scripted_env script =
     \<lparr>NewRequest_error = (\<lambda>u. None),
      client_Do = (\<lambda>req w. (script w, Suc w)),
      encoding_json = example_json\<rparr>"

definition example_script :: "nat \<Rightarrow> go_error + Response" where
  "example_script n =
     (if n = 0 then Inr \<lparr>StatusCode = 200, ReadAll_Body = Inr ''not json''\<rparr>
      else Inl (LibError (ForeignError ''connection refused'')))"

definition example_data_body :: string where
  \<open>example_data_body = ''{"data":{"id":"1"}}''\<close>

text \<open>
  A transport like \<open>example_env\<close>, except that it refuses, as \<^verbatim>\<open>net/url\<close> does, a URL
  in which a percent sign is not followed by two hexadecimal digits.
\<close>

fun bad_escape :: "string \<Rightarrow> bool" where
  "bad_escape [] = False"
| "bad_escape (c # cs) =
     (if c = CHR ''%''
      then (case cs of
              a # b # rest \<Rightarrow> if is_hex a \<and> is_hex b then bad_escape cs else True
            | _ \<Rightarrow> True)
      else bad_escape cs)"

definition example_strict_env :: "int \<Rightarrow> string \<Rightarrow> nat env" where
  "example_strict_env code body =
     \<lparr>NewRequest_error =
        (\<lambda>u. if bad_escape u then Some (LibError (ForeignError ''invalid URL escape'')) else None),
      client_Do = (\<lambda>req w. (Inr \<lparr>StatusCode = code, ReadAll_Body = Inr body\<rparr>, Suc w)),
      encoding_json = example_json\<rparr>"

text \<open>
  Two payloads of the older \<^verbatim>\<open>CreateArticle\<close>, by what \<^verbatim>\<open>json.Marshal\<close> makes of them:
  one that marshals, and one that does not (a time whose year has five digits
  is one such value).
\<close>

definition example_legacy_Marshal :: "unit \<Rightarrow> go_error + string" where
  "example_legacy_Marshal p = Inr ''{}''"

definition example_failing_Marshal :: "unit \<Rightarrow> go_error + string" where
  "example_failing_Marshal p = Inl (LibError (ForeignError ''json: error calling MarshalJSON''))"

definition example_request :: CreateArticleRequest where
  "example_request =
     \<lparr>CreateArticle_Title = ''T'', CreateArticle_Description = [], CreateArticle_URL = ''https://x'',
      CreateArticle_Tags = NilSlice\<rparr>"

definition example_podcast_request :: CreatePodcastRequest where
  "example_podcast_request =
     \<lparr>CreatePodcast_Title = ''T'', CreatePodcast_Description = [], CreatePodcast_URL = ''https://x'',
      CreatePodcast_Tags = NilSlice\<rparr>"

section \<open>Properties\<close>

subsection \<open>The transport primitives\<close>

lemma get_200:
  assumes "NewRequest_error env (url c @ endpoint) = None"
    and "\<forall>req. client_Do env req w = (Inr res, w')"
    and "StatusCode res = 200" and "ReadAll_Body res = Inr body"
  shows "get env c endpoint w = (Inr body, w')"
  using assms by (simp add: get_def http_NewRequest_def StatusOK_def)

lemma post_200:
  assumes "Marshal payload = Inr jsonData"
    and "NewRequest_error env (url c @ endpoint) = None"
    and "\<forall>req. client_Do env req w = (Inr res, w')"
    and "StatusCode res = 200" and "ReadAll_Body res = Inr body"
  shows "post env Marshal c endpoint payload w = (Inr body, w')"
  using assms by (simp add: post_def http_NewRequest_def StatusOK_def)

lemma get_transport_error:
  "NewRequest_error env (url c @ endpoint) = None \<Longrightarrow>
   \<forall>req. client_Do env req w = (Inl e, w') \<Longrightarrow> get env c endpoint w = (Inl e, w')"
  by (simp add: get_def http_NewRequest_def)

lemma get_refused:
  "NewRequest_error env (url c @ endpoint) = Some e \<Longrightarrow> get env c endpoint w = (Inl e, w)"
  by (simp add: get_def http_NewRequest_def)

lemma get_log:
  "snd (snd (get (recording env) c endpoint (w, log))) =
     (case NewRequest_error env (url c @ endpoint) of
        Some err \<Rightarrow> log
      | None \<Rightarrow> log @ [\<lparr>Method = ''GET'', URL = url c @ endpoint,
           Header = [(''Content-Type'', [''application/json'']), (''Authorization'', [''Bearer '' @ apiKey c])],
           Body = None\<rparr>])"
  by (auto simp: get_def recording_def http_NewRequest_def Header_Set_def Let_def
      split: option.splits prod.splits sum.splits)

lemma post_log:
  "snd (snd (post (recording env) Marshal c endpoint payload (w, log))) =
     (case Marshal payload of
        Inl err \<Rightarrow> log
      | Inr jsonData \<Rightarrow>
     (case NewRequest_error env (url c @ endpoint) of
        Some err \<Rightarrow> log
      | None \<Rightarrow> log @ [\<lparr>Method = ''POST'', URL = url c @ endpoint,
           Header = [(''Content-Type'', [''application/json'']), (''Authorization'', [''Bearer '' @ apiKey c])],
           Body = Some jsonData\<rparr>]))"
  by (auto simp: post_def recording_def http_NewRequest_def Header_Set_def Let_def
      split: option.splits prod.splits sum.splits)

subsection \<open>The operations, case by case\<close>

lemma CreateArticle_cases:
  "CreateArticle env c request w =
     (case post env (Marshal_CreateArticleRequest (encoding_json env)) c ''/api/v1/articles'' request w of
        (Inl err, w') \<Rightarrow> (Inl (WrapError ''error creating article: '' err), w')
      | (Inr d, w') \<Rightarrow>
          (case json_Unmarshal (decode_ArticleResponse (encoding_json env)) d \<lparr>Response_Article = None\<rparr> of
             Inl err \<Rightarrow> (Inl (WrapError ''error unmarshalling response data: '' err), w')
           | Inr r \<Rightarrow> (Inr (Response_Article r), w')))"
  by (simp add: CreateArticle_def createArticleEndpoint_def)

lemma GetArticle_cases:
  "GetArticle env c ident w =
     (case get env c (''/api/v1/articles/'' @ ident) w of
        (Inl err, w') \<Rightarrow> (Inl (WrapError ''error retrieving article: '' err), w')
      | (Inr d, w') \<Rightarrow>
          (case json_Unmarshal (decode_ArticleResponse (encoding_json env)) d \<lparr>Response_Article = None\<rparr> of
             Inl err \<Rightarrow> (Inl (WrapError ''error unmarshalling response data: '' err), w')
           | Inr r \<Rightarrow> (Inr (Response_Article r), w')))"
  by (simp add: GetArticle_def getArticleEndpoint_def)

lemma SearchArticles_cases:
  "SearchArticles env c tag w =
     (case get env c (''/api/v1/articles/search/'' @ tag) w of
        (Inl err, w') \<Rightarrow> (Inl (WrapError ''error searching articles: '' err), w')
      | (Inr d, w') \<Rightarrow>
          (case json_Unmarshal (decode_ArticlesResponse (encoding_json env)) d \<lparr>Response_Articles = NilSlice\<rparr> of
             Inl err \<Rightarrow> (Inl (WrapError ''error unmarshalling response data: '' err), w')
           | Inr r \<Rightarrow> (Inr (Response_Articles r), w')))"
  by (simp add: SearchArticles_def searchArticlesEndpoint_def)

lemma SearchArticlesPaginated_cases:
  "SearchArticlesPaginated env c tag page limit w =
     (case get env c (''/api/v1/articles/search/'' @ tag @ ''/paginated?page='' @ Sprint_d page
                       @ ''&limit='' @ Sprint_d limit) w of
        (Inl err, w') \<Rightarrow> (Inl (WrapError ''error searching articles with pagination: '' err), w')
      | (Inr d, w') \<Rightarrow>
          (case json_Unmarshal (decode_PaginatedArticlesResponse (encoding_json env)) d
                  zero_PaginatedArticlesResponse of
             Inl err \<Rightarrow> (Inl (WrapError ''error unmarshalling response data: '' err), w')
           | Inr r \<Rightarrow> (Inr r, w')))"
  by (simp add: SearchArticlesPaginated_def searchArticlesPaginatedEndpoint_def)

lemma CreatePodcast_cases:
  "CreatePodcast env c request w =
     (case post env (Marshal_CreatePodcastRequest (encoding_json env)) c ''/api/v1/podcasts'' request w of
        (Inl err, w') \<Rightarrow> (Inl (WrapError ''error creating podcast: '' err), w')
      | (Inr d, w') \<Rightarrow>
          (case json_Unmarshal (decode_PodcastResponse (encoding_json env)) d \<lparr>Response_Podcast = None\<rparr> of
             Inl err \<Rightarrow> (Inl (WrapError ''error unmarshalling response data: '' err), w')
           | Inr r \<Rightarrow> (Inr (Response_Podcast r), w')))"
  by (simp add: CreatePodcast_def createPodcastEndpoint_def)

lemma GetPodcast_cases:
  "GetPodcast env c ident w =
     (case get env c (''/api/v1/podcasts/'' @ ident) w of
        (Inl err, w') \<Rightarrow> (Inl (WrapError ''error retrieving podcast: '' err), w')
      | (Inr d, w') \<Rightarrow>
          (case json_Unmarshal (decode_PodcastResponse (encoding_json env)) d \<lparr>Response_Podcast = None\<rparr> of
             Inl err \<Rightarrow> (Inl (WrapError ''error unmarshalling response data: '' err), w')
           | Inr r \<Rightarrow> (Inr (Response_Podcast r), w')))"
  by (simp add: GetPodcast_def getPodcastEndpoint_def)

lemma SearchPodcasts_cases:
  "SearchPodcasts env c tag w =
     (case get env c (''/api/v1/podcasts/search/'' @ tag) w of
        (Inl err, w') \<Rightarrow> (Inl (WrapError ''error searching podcasts: '' err), w')
      | (Inr d, w') \<Rightarrow>
          (case json_Unmarshal (decode_PodcastsResponse (encoding_json env)) d \<lparr>Response_Podcasts = NilSlice\<rparr> of
             Inl err \<Rightarrow> (Inl (WrapError ''error unmarshalling response data: '' err), w')
           | Inr r \<Rightarrow> (Inr (Response_Podcasts r), w')))"
  by (simp add: SearchPodcasts_def searchPodcastsEndpoint_def)

lemma SearchPodcastsPaginated_cases:
  "SearchPodcastsPaginated env c tag page limit w =
     (case get env c (''/api/v1/podcasts/search/'' @ tag @ ''/paginated?page='' @ Sprint_d page
                       @ ''&limit='' @ Sprint_d limit) w of
        (Inl err, w') \<Rightarrow> (Inl (WrapError ''error searching podcasts with pagination: '' err), w')
      | (Inr d, w') \<Rightarrow>
          (case json_Unmarshal (decode_PaginatedPodcastsResponse (encoding_json env)) d
                  zero_PaginatedPodcastsResponse of
             Inl err \<Rightarrow> (Inl (WrapError ''error unmarshalling response data: '' err), w')
           | Inr r \<Rightarrow> (Inr r, w')))"
  by (simp add: SearchPodcastsPaginated_def searchPodcastsPaginatedEndpoint_def)

lemma GetHealth_cases:
  "GetHealth env c w =
     (case get env c ''/health'' w of
        (Inl err, w') \<Rightarrow> (Inl (WrapError ''error retrieving health status: '' err), w')
      | (Inr d, w') \<Rightarrow>
          (case json_Unmarshal (decode_HealthResponse (encoding_json env)) d zero_HealthResponse of
             Inl err \<Rightarrow> (Inl (WrapError ''error unmarshalling response data: '' err), w')
           | Inr r \<Rightarrow> (Inr r, w')))"
  by (simp add: GetHealth_def healthEndpoint_def)

lemma CreateArticle_legacy_cases:
  "CreateArticle_legacy env Marshal c request w =
     (case post env Marshal c ''/api/v1/articles'' request w of
        (Inl err, w') \<Rightarrow> (Some (WrapError ''error creating article: '' err), w')
      | (Inr d, w') \<Rightarrow> (None, w'))"
  by (simp add: CreateArticle_legacy_def createArticleEndpoint_def)

lemma CreatePodcast_legacy_cases:
  "CreatePodcast_legacy env Marshal c request w =
     (case post env Marshal c ''/api/v1/podcasts'' request w of
        (Inl err, w') \<Rightarrow> (Some (WrapError ''error creating podcast: '' err), w')
      | (Inr d, w') \<Rightarrow> (None, w'))"
  by (simp add: CreatePodcast_legacy_def createPodcastEndpoint_def)

lemma op_world:
  "snd (GetArticle env c ident w) = snd (get env c (''/api/v1/articles/'' @ ident) w)"
  "snd (SearchArticles env c tag w) = snd (get env c (''/api/v1/articles/search/'' @ tag) w)"
  "snd (SearchPodcasts env c tag w) = snd (get env c (''/api/v1/podcasts/search/'' @ tag) w)"
  "snd (SearchPodcastsPaginated env c tag page limit w) =
     snd (get env c (''/api/v1/podcasts/search/'' @ tag @ ''/paginated?page='' @ Sprint_d page
                       @ ''&limit='' @ Sprint_d limit) w)"
  by (simp_all add: GetArticle_cases SearchArticles_cases SearchPodcasts_cases SearchPodcastsPaginated_cases
      split: prod.splits sum.splits)

lemma Marshal_requests_succeed:
  "\<exists>j. Marshal_CreateArticleRequest L a = Inr j" "\<exists>j. Marshal_CreatePodcastRequest L p = Inr j"
  by (simp_all add: Marshal_CreateArticleRequest_def Marshal_CreatePodcastRequest_def)

lemma syntax_error: "json_parse body = None \<Longrightarrow> json_Unmarshal dec body v = Inl (LibError SyntaxError)"
  by (simp add: json_Unmarshal_def)

subsection \<open>Evaluating the examples\<close>

lemmas json_eval = json_parse_def lex_step_def lex_idle_def lex_end_def word_token_def is_space_def is_digit_def
  is_hex_def is_letter_def is_number_char_def valid_number_def valid_unsigned_def valid_fraction_def valid_exponent_def
  digits1_def parse_step_def begin_value_def complete_def take_key_def close_array_def close_object_def maxNestingDepth_def

text \<open>What the scanner takes for a JSON text, on a few inputs.\<close>

lemma json_parse_accepts:
  \<open>json_parse ''null'' = Some JNull\<close>
  \<open>json_parse '' [1e5, -0, 0.5, true] '' =
     Some (JArray [JNumber ''1e5'', JNumber ''-0'', JNumber ''0.5'', JBool True])\<close>
  \<open>json_parse ''{"a":{"b":[]}}'' = Some (JObject [(''a'', JObject [(''b'', JArray [])])])\<close>
  by (simp_all add: json_eval)

lemma json_parse_rejects:
  \<open>json_parse [] = None\<close>
  \<open>json_parse ''{"a":01}'' = None\<close>
  \<open>json_parse ''[1,]'' = None\<close>
  \<open>json_parse ''{"a":1}x'' = None\<close>
  \<open>json_parse ''{"a"}'' = None\<close>
  \<open>json_parse ''"abc'' = None\<close>
  \<open>json_parse ''nul'' = None\<close>
  by (simp_all add: json_eval)

lemma example_env_simps:
  "NewRequest_error (example_env code body) u = None"
  "client_Do (example_env code body) req w = (Inr \<lparr>StatusCode = code, ReadAll_Body = Inr body\<rparr>, Suc w)"
  "encoding_json (example_env code body) = example_json"
  by (simp_all add: example_env_def)

lemma example_strict_env_simps:
  "NewRequest_error (example_strict_env code body) u =
     (if bad_escape u then Some (LibError (ForeignError ''invalid URL escape'')) else None)"
  "client_Do (example_strict_env code body) req w =
     (Inr \<lparr>StatusCode = code, ReadAll_Body = Inr body\<rparr>, Suc w)"
  "encoding_json (example_strict_env code body) = example_json"
  by (simp_all add: example_strict_env_def)

lemma example_scripted_env_simps:
  "NewRequest_error (example_scripted_env script) u = None"
  "client_Do (example_scripted_env script) req w = (script w, Suc w)"
  "encoding_json (example_scripted_env script) = example_json"
  by (simp_all add: example_scripted_env_def)

lemma Sprint_d_404: "Sprint_d 404 = ''404''"
  by (simp add: Sprint_d_def digits.simps)

lemma Sprint_d_500: "Sprint_d 500 = ''500''"
  by (simp add: Sprint_d_def digits.simps)



lemma zero_slices:
  "Article_Tags zero_Article = NilSlice" "Podcast_Tags zero_Podcast = NilSlice"
  "Paginated_Podcasts zero_PaginatedPodcastsResponse = NilSlice"
  by (simp_all add: zero_Article_def zero_Podcast_def zero_PaginatedPodcastsResponse_def)

lemma plain_lits:
  "unquote L ''id'' = ''id''" "unquote L ''title'' = ''title''" "unquote L ''url'' = ''url''"
  "unquote L ''tags'' = ''tags''" "unquote L ''article'' = ''article''" "unquote L ''1'' = ''1''"
  "unquote L ''T'' = ''T''" "unquote L ''https://x'' = ''https://x''" "unquote L ''a'' = ''a''" "unquote L ''b'' = ''b''"
  "unquote L ''podcasts'' = ''podcasts''" "unquote L ''total'' = ''total''" "unquote L ''page'' = ''page''"
  "unquote L ''limit'' = ''limit''"
  by (simp_all add: unquote_def plain_char_def)

subsection \<open>Status codes\<close>

text \<open>
  C1. When the transport answers with a response whose status code is not 200
  and whose body reads as \<open>body\<close>, both \<^verbatim>\<open>get\<close> and \<^verbatim>\<open>post\<close> return no bytes but
  the error whose text is \<^verbatim>\<open>unexpected status code: <code>, body: <body>\<close>: the
  code in decimal and the body as it is, whatever the body holds. (A response
  exists only when the request was built and sent, hence the first two
  assumptions.)
\<close>

theorem get_post_unexpected_status:
  assumes "NewRequest_error env (url c @ endpoint) = None"
    and "Marshal payload = Inr jsonData"
    and "\<forall>req. client_Do env req w = (Inr res, w')"
    and "ReadAll_Body res = Inr body"
    and "StatusCode res \<noteq> 200"
  shows "get env c endpoint w =
           (Inl (ErrorString (''unexpected status code: '' @ Sprint_d (StatusCode res)
                   @ '', body: '' @ body)), w')
       \<and> post env Marshal c endpoint payload w =
           (Inl (ErrorString (''unexpected status code: '' @ Sprint_d (StatusCode res)
                   @ '', body: '' @ body)), w')
       \<and> Error lib_text (ErrorString (''unexpected status code: '' @ Sprint_d (StatusCode res)
                   @ '', body: '' @ body))
           = ''unexpected status code: '' @ Sprint_d (StatusCode res) @ '', body: '' @ body"
  using assms by (simp add: get_def post_def http_NewRequest_def StatusOK_def)

theorem get_post_unexpected_status_witness:
  "get \<lparr>NewRequest_error = (\<lambda>u. None),
        client_Do = (\<lambda>req w. (Inr \<lparr>StatusCode = 404, ReadAll_Body = Inr ''<html>gone''\<rparr>, w)),
        encoding_json = example_json\<rparr>
       \<lparr>url = ''http://h'', apiKey = ''k''\<rparr> ''/health'' (0::nat)
     = (Inl (ErrorString ''unexpected status code: 404, body: <html>gone''), 0)
   \<and> post \<lparr>NewRequest_error = (\<lambda>u. None),
        client_Do = (\<lambda>req w. (Inr \<lparr>StatusCode = 404, ReadAll_Body = Inr ''<html>gone''\<rparr>, w)),
        encoding_json = example_json\<rparr>
       (\<lambda>p::unit. Inr ''null'') \<lparr>url = ''http://h'', apiKey = ''k''\<rparr> ''/health'' () (0::nat)
     = (Inl (ErrorString ''unexpected status code: 404, body: <html>gone''), 0)"
  using get_post_unexpected_status
    [of "\<lparr>NewRequest_error = (\<lambda>u. None),
        client_Do = (\<lambda>req w. (Inr \<lparr>StatusCode = 404, ReadAll_Body = Inr ''<html>gone''\<rparr>, w)),
        encoding_json = example_json\<rparr>"
        "\<lparr>url = ''http://h'', apiKey = ''k''\<rparr>" "''/health''" "\<lambda>p::unit. Inr ''null''" "()" "''null''"
        "0::nat" "\<lparr>StatusCode = 404, ReadAll_Body = Inr ''<html>gone''\<rparr>" 0 "''<html>gone''"]
  by (simp add: Sprint_d_404)

subsection \<open>Construction\<close>

text \<open>
  C2. \<^verbatim>\<open>New\<close> fails when the url is empty or the apiKey is empty, with the error
  that names the empty argument (the url is looked at first), and returns no
  client; for a non-empty url and a non-empty apiKey it returns a client holding
  exactly the two strings. \<^verbatim>\<open>New\<close> is a function of the two strings alone, with
  no transport to call.
\<close>

theorem New_validates_configuration:
  "(u = [] \<longrightarrow> New u k = Inl (ErrorString ''url is empty''))
   \<and> (u \<noteq> [] \<and> k = [] \<longrightarrow> New u k = Inl (ErrorString ''apiKey is empty''))
   \<and> (u \<noteq> [] \<and> k \<noteq> [] \<longrightarrow> New u k = Inr \<lparr>url = u, apiKey = k\<rparr>)
   \<and> ((\<exists>c. New u k = Inr c) \<longleftrightarrow> u \<noteq> [] \<and> k \<noteq> [])"
  by (auto simp: New_def)

theorem New_validates_configuration_witness:
  "New '''' ''key'' = Inl (ErrorString ''url is empty'')
   \<and> New ''http://localhost:8080'' '''' = Inl (ErrorString ''apiKey is empty'')
   \<and> New '''' '''' = Inl (ErrorString ''url is empty'')
   \<and> New ''http://localhost:8080'' ''key'' = Inr \<lparr>url = ''http://localhost:8080'', apiKey = ''key''\<rparr>"
  using New_validates_configuration [of "''''" "''key''"]
    New_validates_configuration [of "''http://localhost:8080''" "''''"]
    New_validates_configuration [of "''''" "''''"]
    New_validates_configuration [of "''http://localhost:8080''" "''key''"]
  by simp

subsection \<open>What is sent\<close>

lemma ex_marshal:
  \<open>Marshal_CreateArticleRequest example_json
     \<lparr>CreateArticle_Title = ''T'', CreateArticle_Description = [], CreateArticle_URL = ''https://x'',
      CreateArticle_Tags = Slice [''a'', ''b''] []\<rparr>
   = Inr ''{"title":"T","url":"https://x","tags":["a","b"]}''\<close>
  by (simp add: Marshal_CreateArticleRequest_def quote_def html_safe_def plain_char_def)

text \<open>
  C3. With a transport that records what it is handed, \<^verbatim>\<open>post\<close> adds to the record
  exactly one request, whose body is \<^verbatim>\<open>json.Marshal\<close> of the payload, and \<^verbatim>\<open>get\<close>
  exactly one request without a body; each carries the two headers
  \<^verbatim>\<open>Content-Type: application/json\<close> and \<^verbatim>\<open>Authorization: Bearer <apiKey>\<close> and no
  other. Nothing is sent when the payload cannot be marshalled or the URL is
  refused. The client that \<^verbatim>\<open>New\<close> returns holds the url and the apiKey it was
  given.
\<close>

theorem requests_carry_payload_and_headers:
  "snd (snd (post (recording env) Marshal c endpoint payload (w, log))) =
     (case Marshal payload of
        Inl err \<Rightarrow> log
      | Inr jsonData \<Rightarrow>
          (case NewRequest_error env (url c @ endpoint) of
             Some err \<Rightarrow> log
           | None \<Rightarrow>
               log @ [\<lparr>Method = ''POST'', URL = url c @ endpoint,
                        Header = [(''Content-Type'', [''application/json'']),
                                  (''Authorization'', [''Bearer '' @ apiKey c])],
                        Body = Some jsonData\<rparr>]))
   \<and> snd (snd (get (recording env) c endpoint (w, log))) =
     (case NewRequest_error env (url c @ endpoint) of
        Some err \<Rightarrow> log
      | None \<Rightarrow>
          log @ [\<lparr>Method = ''GET'', URL = url c @ endpoint,
                   Header = [(''Content-Type'', [''application/json'']),
                             (''Authorization'', [''Bearer '' @ apiKey c])],
                   Body = None\<rparr>])
   \<and> (New u k = Inr c \<longrightarrow> url c = u \<and> apiKey c = k)"
  by (auto simp: post_log get_log New_def split: if_splits)

theorem requests_carry_payload_and_headers_witness:
  \<open>snd (snd (post (recording (example_env 200 ''{}'')) (Marshal_CreateArticleRequest example_json)
       example_client ''/api/v1/articles''
       \<lparr>CreateArticle_Title = ''T'', CreateArticle_Description = [], CreateArticle_URL = ''https://x'',
        CreateArticle_Tags = Slice [''a'', ''b''] []\<rparr> (0, []))) =
     [\<lparr>Method = ''POST'', URL = ''http://localhost:8080/api/v1/articles'',
       Header = [(''Content-Type'', [''application/json'']), (''Authorization'', [''Bearer secret''])],
       Body = Some ''{"title":"T","url":"https://x","tags":["a","b"]}''\<rparr>]
   \<and> snd (snd (get (recording (example_env 200 ''{}'')) example_client ''/health'' (0, []))) =
     [\<lparr>Method = ''GET'', URL = ''http://localhost:8080/health'',
       Header = [(''Content-Type'', [''application/json'']), (''Authorization'', [''Bearer secret''])],
       Body = None\<rparr>]
   \<and> New ''http://localhost:8080'' ''secret'' = Inr example_client\<close>
  using requests_carry_payload_and_headers [of "example_env 200 ''{}''"
      "Marshal_CreateArticleRequest example_json" example_client "''/api/v1/articles''"
      "\<lparr>CreateArticle_Title = ''T'', CreateArticle_Description = [], CreateArticle_URL = ''https://x'',
        CreateArticle_Tags = Slice [''a'', ''b''] []\<rparr>" 0 "[]" "''http://localhost:8080''" "''secret''"]
    requests_carry_payload_and_headers [of "example_env 200 ''{}''"
      "Marshal_CreateArticleRequest example_json" example_client "''/health''"
      "\<lparr>CreateArticle_Title = ''T'', CreateArticle_Description = [], CreateArticle_URL = ''https://x'',
        CreateArticle_Tags = Slice [''a'', ''b''] []\<rparr>" 0 "[]"]
  by (simp add: ex_marshal example_env_simps example_client_def New_def)

subsection \<open>A single article\<close>

lemma store_Article_other:
  assumes "n \<noteq> ''id''" "n \<noteq> ''title''" "n \<noteq> ''tags''"
    and "store_Article L n v zero_Article \<noteq> None"
  shows "\<exists>a'. store_Article L n v a = Some a' \<and> Article_ID a' = Article_ID a
           \<and> Article_Title a' = Article_Title a \<and> Article_Tags a' = Article_Tags a"
  using assms
  by (auto simp: store_Article_def decode_string_def decode_Time_def split: json.splits if_splits)

lemma decode_members_Article_rest:
  assumes "\<forall>(k, v) \<in> set rest.
             (case select_field L entity_names (unquote L k) of
                None \<Rightarrow> True
              | Some n \<Rightarrow> n \<noteq> ''id'' \<and> n \<noteq> ''title'' \<and> n \<noteq> ''tags''
                          \<and> store_Article L n v zero_Article \<noteq> None)"
  shows "\<exists>a'. decode_members L entity_names (store_Article L) rest a = Some a'
           \<and> Article_ID a' = Article_ID a \<and> Article_Title a' = Article_Title a
           \<and> Article_Tags a' = Article_Tags a"
  using assms
proof (induction rest arbitrary: a)
  case Nil
  then show ?case by simp
next
  case (Cons m rest)
  obtain k v where m: "m = (k, v)" by (cases m)
  show ?case
  proof (cases "select_field L entity_names (unquote L k)")
    case None
    with Cons m show ?thesis by simp
  next
    case (Some n)
    with Cons.prems m have n: "n \<noteq> ''id''" "n \<noteq> ''title''" "n \<noteq> ''tags''"
      "store_Article L n v zero_Article \<noteq> None" by auto
    from store_Article_other [OF n, of a] obtain a1 where a1: "store_Article L n v a = Some a1"
      "Article_ID a1 = Article_ID a" "Article_Title a1 = Article_Title a" "Article_Tags a1 = Article_Tags a"
      by blast
    from Cons.IH [of a1] Cons.prems obtain a' where
      "decode_members L entity_names (store_Article L) rest a1 = Some a'"
      "Article_ID a' = Article_ID a1" "Article_Title a' = Article_Title a1" "Article_Tags a' = Article_Tags a1"
      by auto
    with a1 Some m show ?thesis by simp
  qed
qed

lemma article_envelope:
  assumes "json_parse body = Some (JObject [(''article'', JObject
              ([(''id'', JString ''1''), (''title'', JString ''T''), (''url'', JString ''https://x''),
                (''tags'', JArray [JString ''a'', JString ''b''])] @ rest))])"
    and "\<forall>(k, v) \<in> set rest.
             (case select_field L entity_names (unquote L k) of
                None \<Rightarrow> True
              | Some n \<Rightarrow> n \<noteq> ''id'' \<and> n \<noteq> ''title'' \<and> n \<noteq> ''tags''
                          \<and> store_Article L n v zero_Article \<noteq> None)"
  shows "\<exists>a. json_Unmarshal (decode_ArticleResponse L) body \<lparr>Response_Article = None\<rparr>
               = Inr \<lparr>Response_Article = Some a\<rparr>
           \<and> Article_ID a = ''1'' \<and> Article_Title a = ''T'' \<and> Article_Tags a = Slice [''a'', ''b''] []"
proof -
  let ?a0 = "zero_Article\<lparr>Article_ID := ''1'', Article_Title := ''T'', Article_URL := ''https://x'',
     Article_Tags := Slice [''a'', ''b''] []\<rparr>"
  from decode_members_Article_rest [OF assms(2), of ?a0] obtain a where
    a: "decode_members L entity_names (store_Article L) rest ?a0 = Some a"
      "Article_ID a = ''1''" "Article_Title a = ''T''" "Article_Tags a = Slice [''a'', ''b''] []"
    by auto
  have "decode_Article L (JObject
              ([(''id'', JString ''1''), (''title'', JString ''T''), (''url'', JString ''https://x''),
                (''tags'', JArray [JString ''a'', JString ''b''])] @ rest)) zero_Article = Some a"
    using a(1)
    by (simp add: decode_Article_def decode_struct_def plain_lits select_field_def entity_names_def
        store_Article_def decode_string_def decode_slice_def zero_slices)
  then have "json_Unmarshal (decode_ArticleResponse L) body \<lparr>Response_Article = None\<rparr>
               = Inr \<lparr>Response_Article = Some a\<rparr>"
    using assms(1)
    by (simp add: json_Unmarshal_def decode_ArticleResponse_def decode_struct_def plain_lits
        select_field_def store_ArticleResponse_def decode_ptr_def)
  with a show ?thesis by blast
qed

text \<open>
  C4. A 200 response whose body is the envelope
  \<^verbatim>\<open>{"article":{"id":"1","title":"T","url":"https://x","tags":["a","b"],...}}\<close>, where
  the members standing for the dots select none of id, title and tags and each
  holds a value that fits the field it selects (or select no field at all):
  \<^verbatim>\<open>GetArticle("1")\<close> returns no error and an article with ID "1", Title "T" and
  Tags ["a","b"].
\<close>

theorem GetArticle_round_trip:
  assumes "NewRequest_error env (url c @ ''/api/v1/articles/1'') = None"
    and "\<forall>req. client_Do env req w = (Inr res, w')"
    and "StatusCode res = 200"
    and "ReadAll_Body res = Inr body"
    and "json_parse body = Some (JObject [(''article'', JObject
              ([(''id'', JString ''1''), (''title'', JString ''T''), (''url'', JString ''https://x''),
                (''tags'', JArray [JString ''a'', JString ''b''])] @ rest))])"
    and "\<forall>(k, v) \<in> set rest.
             (case select_field (encoding_json env) entity_names (unquote (encoding_json env) k) of
                None \<Rightarrow> True
              | Some n \<Rightarrow> n \<noteq> ''id'' \<and> n \<noteq> ''title'' \<and> n \<noteq> ''tags''
                          \<and> store_Article (encoding_json env) n v zero_Article \<noteq> None)"
  shows "\<exists>a. GetArticle env c ''1'' w = (Inr (Some a), w')
           \<and> Article_ID a = ''1'' \<and> Article_Title a = ''T'' \<and> Article_Tags a = Slice [''a'', ''b''] []"
proof -
  have g: "get env c (''/api/v1/articles/'' @ ''1'') w = (Inr body, w')"
    using assms(1-4) by (intro get_200) simp_all
  from article_envelope [OF assms(5,6)] obtain a where
    "json_Unmarshal (decode_ArticleResponse (encoding_json env)) body \<lparr>Response_Article = None\<rparr>
               = Inr \<lparr>Response_Article = Some a\<rparr>"
    "Article_ID a = ''1''" "Article_Title a = ''T''" "Article_Tags a = Slice [''a'', ''b''] []"
    by blast
  with g show ?thesis
    by (simp add: GetArticle_cases)
qed

theorem GetArticle_round_trip_witness:
  "\<exists>a. GetArticle (example_env 200 example_article_body) example_client ''1'' 0 = (Inr (Some a), 1)
     \<and> Article_ID a = ''1'' \<and> Article_Title a = ''T'' \<and> Article_Tags a = Slice [''a'', ''b''] []"
proof -
  let ?env = "example_env 200 example_article_body"
  have 1: "NewRequest_error ?env (url example_client @ ''/api/v1/articles/1'') = None"
    by (simp add: example_env_simps)
  have 2: "\<forall>req. client_Do ?env req 0 = (Inr \<lparr>StatusCode = 200, ReadAll_Body = Inr example_article_body\<rparr>, 1)"
    by (simp add: example_env_simps)
  have 3: "StatusCode \<lparr>StatusCode = 200, ReadAll_Body = Inr example_article_body\<rparr> = 200"
    by simp
  have 4: "ReadAll_Body \<lparr>StatusCode = 200, ReadAll_Body = Inr example_article_body\<rparr> = Inr example_article_body"
    by simp
  have 5: "json_parse example_article_body = Some (JObject [(''article'', JObject
              ([(''id'', JString ''1''), (''title'', JString ''T''), (''url'', JString ''https://x''),
                (''tags'', JArray [JString ''a'', JString ''b''])] @
               [(''description'', JString ''d''), (''created_at'', JString ''2024-01-01T00:00:00Z''),
                (''updated_at'', JNull), (''extra'', JArray [JNumber ''1'', JNumber ''2''])]))])"
    unfolding example_article_body_def by (simp add: json_eval)
  have 6: "\<forall>(k, v) \<in> set [(''description'', JString ''d''), (''created_at'', JString ''2024-01-01T00:00:00Z''),
                (''updated_at'', JNull), (''extra'', JArray [JNumber ''1'', JNumber ''2''])].
             (case select_field (encoding_json ?env) entity_names (unquote (encoding_json ?env) k) of
                None \<Rightarrow> True
              | Some n \<Rightarrow> n \<noteq> ''id'' \<and> n \<noteq> ''title'' \<and> n \<noteq> ''tags''
                          \<and> store_Article (encoding_json ?env) n v zero_Article \<noteq> None)"
    by (simp add: example_env_simps select_field_def entity_names_def unquote_def plain_char_def
        example_json_def upper_ascii_def is_letter_def store_Article_def decode_string_def decode_Time_def)
  show ?thesis
    by (rule GetArticle_round_trip [OF 1 2 3 4 5 6])
qed

subsection \<open>An empty search result\<close>

lemma empty_articles:
  "json_parse body = Some (JObject [(''articles'', JArray [])]) \<Longrightarrow>
   json_Unmarshal (decode_ArticlesResponse L) body \<lparr>Response_Articles = NilSlice\<rparr> = Inr \<lparr>Response_Articles = Slice [] []\<rparr>"
  by (simp add: json_Unmarshal_def decode_ArticlesResponse_def decode_struct_def unquote_def plain_char_def
     select_field_def store_ArticlesResponse_def decode_slice_def)

lemma ex_empty_parse: \<open>json_parse ''{"articles":[]}'' = Some (JObject [(''articles'', JArray [])])\<close>
  by (simp add: json_eval)

text \<open>
  C5. A 200 response whose body is the envelope \<^verbatim>\<open>{"articles":[]}\<close>:
  \<^verbatim>\<open>SearchArticles\<close> returns the empty slice that is not nil (\<open>Slice [] []\<close>) and no
  error.
\<close>

theorem SearchArticles_empty_result:
  assumes "NewRequest_error env (url c @ ''/api/v1/articles/search/'' @ tag) = None"
    and "\<forall>req. client_Do env req w = (Inr res, w')"
    and "StatusCode res = 200"
    and "ReadAll_Body res = Inr body"
    and "json_parse body = Some (JObject [(''articles'', JArray [])])"
  shows "SearchArticles env c tag w = (Inr (Slice [] []), w')"
proof -
  have "get env c (''/api/v1/articles/search/'' @ tag) w = (Inr body, w')"
    using assms(1-4) by (intro get_200) simp_all
  then show ?thesis
    using empty_articles [OF assms(5)] by (simp add: SearchArticles_cases)
qed

theorem SearchArticles_empty_result_witness:
  \<open>SearchArticles (example_env 200 ''{"articles":[]}'') example_client ''golang'' 0 = (Inr (Slice [] []), 1)\<close>
  by (rule SearchArticles_empty_result [where res = "\<lparr>StatusCode = 200, ReadAll_Body = Inr _\<rparr>",
        OF _ _ _ _ ex_empty_parse])
     (simp_all add: example_env_simps)

subsection \<open>Failures\<close>

lemma ex_not_json: "json_parse ''not json'' = None"
  by (simp add: json_eval)

lemma ex_post_200:
  "post (example_env 200 ''not json'') Marshal example_client ''/api/v1/articles'' payload 0 =
     (case Marshal payload of
        Inl err \<Rightarrow> (Inl (WrapError ''error marshalling data to JSON: '' err), 0)
      | Inr j \<Rightarrow> (Inr ''not json'', 1))"
  by (simp add: post_def http_NewRequest_def example_env_simps StatusOK_def Let_def
      split: sum.splits)

text \<open>
  The claim C6 as it is written fails on the older \<^verbatim>\<open>CreateArticle\<close>: on a 200
  response whose body is not JSON it returns the nil error.
\<close>

theorem error_only_CreateArticle_accepts_malformed_body:
  "json_parse ''not json'' = None
   \<and> CreateArticle_legacy (example_env 200 ''not json'') example_legacy_Marshal example_client () 0
       = (None, 1)"
  by (simp add: ex_not_json CreateArticle_legacy_cases ex_post_200 example_legacy_Marshal_def)

text \<open>
  C6, amended. On a 200 response whose body \<^verbatim>\<open>json.Unmarshal\<close> rejects for the
  envelope of the operation (a body that is not JSON is rejected for every
  envelope), each of the nine operations that return a typed result returns the
  error \<^verbatim>\<open>error unmarshalling response data: <cause>\<close> and no value: an error,
  never a nil value with a nil error, and never the error of a failed request,
  whose text starts with the name of the operation. When \<^verbatim>\<open>get\<close> or \<^verbatim>\<open>post\<close>
  fails, for whatever reason, every operation, the two older ones that return
  an error only among them, returns that error wrapped, unchanged, behind its
  own prefix.
\<close>

theorem unmarshalling_failure_and_forwarding:
  "((\<forall>req. client_Do env req w = (Inr res, w')) \<and> StatusCode res = 200 \<and> ReadAll_Body res = Inr body
      \<longrightarrow>
        (\<forall>e. NewRequest_error env (url c @ ''/api/v1/articles'') = None
              \<and> json_Unmarshal (decode_ArticleResponse (encoding_json env)) body
                   \<lparr>Response_Article = None\<rparr> = Inl e
            \<longrightarrow> CreateArticle env c article_request w
                  = (Inl (WrapError ''error unmarshalling response data: '' e), w'))
      \<and> (\<forall>e. NewRequest_error env (url c @ ''/api/v1/articles/'' @ ident) = None
              \<and> json_Unmarshal (decode_ArticleResponse (encoding_json env)) body
                   \<lparr>Response_Article = None\<rparr> = Inl e
            \<longrightarrow> GetArticle env c ident w
                  = (Inl (WrapError ''error unmarshalling response data: '' e), w'))
      \<and> (\<forall>e. NewRequest_error env (url c @ ''/api/v1/articles/search/'' @ tag) = None
              \<and> json_Unmarshal (decode_ArticlesResponse (encoding_json env)) body
                   \<lparr>Response_Articles = NilSlice\<rparr> = Inl e
            \<longrightarrow> SearchArticles env c tag w
                  = (Inl (WrapError ''error unmarshalling response data: '' e), w'))
      \<and> (\<forall>e. NewRequest_error env (url c @ ''/api/v1/articles/search/'' @ tag
                   @ ''/paginated?page='' @ Sprint_d page @ ''&limit='' @ Sprint_d limit) = None
              \<and> json_Unmarshal (decode_PaginatedArticlesResponse (encoding_json env)) body
                   zero_PaginatedArticlesResponse = Inl e
            \<longrightarrow> SearchArticlesPaginated env c tag page limit w
                  = (Inl (WrapError ''error unmarshalling response data: '' e), w'))
      \<and> (\<forall>e. NewRequest_error env (url c @ ''/api/v1/podcasts'') = None
              \<and> json_Unmarshal (decode_PodcastResponse (encoding_json env)) body
                   \<lparr>Response_Podcast = None\<rparr> = Inl e
            \<longrightarrow> CreatePodcast env c podcast_request w
                  = (Inl (WrapError ''error unmarshalling response data: '' e), w'))
      \<and> (\<forall>e. NewRequest_error env (url c @ ''/api/v1/podcasts/'' @ ident) = None
              \<and> json_Unmarshal (decode_PodcastResponse (encoding_json env)) body
                   \<lparr>Response_Podcast = None\<rparr> = Inl e
            \<longrightarrow> GetPodcast env c ident w
                  = (Inl (WrapError ''error unmarshalling response data: '' e), w'))
      \<and> (\<forall>e. NewRequest_error env (url c @ ''/api/v1/podcasts/search/'' @ tag) = None
              \<and> json_Unmarshal (decode_PodcastsResponse (encoding_json env)) body
                   \<lparr>Response_Podcasts = NilSlice\<rparr> = Inl e
            \<longrightarrow> SearchPodcasts env c tag w
                  = (Inl (WrapError ''error unmarshalling response data: '' e), w'))
      \<and> (\<forall>e. NewRequest_error env (url c @ ''/api/v1/podcasts/search/'' @ tag
                   @ ''/paginated?page='' @ Sprint_d page @ ''&limit='' @ Sprint_d limit) = None
              \<and> json_Unmarshal (decode_PaginatedPodcastsResponse (encoding_json env)) body
                   zero_PaginatedPodcastsResponse = Inl e
            \<longrightarrow> SearchPodcastsPaginated env c tag page limit w
                  = (Inl (WrapError ''error unmarshalling response data: '' e), w'))
      \<and> (\<forall>e. NewRequest_error env (url c @ ''/health'') = None
              \<and> json_Unmarshal (decode_HealthResponse (encoding_json env)) body
                   zero_HealthResponse = Inl e
            \<longrightarrow> GetHealth env c w
                  = (Inl (WrapError ''error unmarshalling response data: '' e), w')))
   \<and> (json_parse body = None
        \<longrightarrow> (\<forall>dec v. json_Unmarshal dec body (v::'a) = Inl (LibError SyntaxError)))
   \<and> (\<forall>v e v'.
        (post env (Marshal_CreateArticleRequest (encoding_json env)) c ''/api/v1/articles''
             article_request v = (Inl e, v')
           \<longrightarrow> CreateArticle env c article_request v
                 = (Inl (WrapError ''error creating article: '' e), v'))
      \<and> (get env c (''/api/v1/articles/'' @ ident) v = (Inl e, v')
           \<longrightarrow> GetArticle env c ident v
                 = (Inl (WrapError ''error retrieving article: '' e), v'))
      \<and> (get env c (''/api/v1/articles/search/'' @ tag) v = (Inl e, v')
           \<longrightarrow> SearchArticles env c tag v
                 = (Inl (WrapError ''error searching articles: '' e), v'))
      \<and> (get env c (''/api/v1/articles/search/'' @ tag @ ''/paginated?page='' @ Sprint_d page
                      @ ''&limit='' @ Sprint_d limit) v = (Inl e, v')
           \<longrightarrow> SearchArticlesPaginated env c tag page limit v
                 = (Inl (WrapError ''error searching articles with pagination: '' e), v'))
      \<and> (post env (Marshal_CreatePodcastRequest (encoding_json env)) c ''/api/v1/podcasts''
             podcast_request v = (Inl e, v')
           \<longrightarrow> CreatePodcast env c podcast_request v
                 = (Inl (WrapError ''error creating podcast: '' e), v'))
      \<and> (get env c (''/api/v1/podcasts/'' @ ident) v = (Inl e, v')
           \<longrightarrow> GetPodcast env c ident v
                 = (Inl (WrapError ''error retrieving podcast: '' e), v'))
      \<and> (get env c (''/api/v1/podcasts/search/'' @ tag) v = (Inl e, v')
           \<longrightarrow> SearchPodcasts env c tag v
                 = (Inl (WrapError ''error searching podcasts: '' e), v'))
      \<and> (get env c (''/api/v1/podcasts/search/'' @ tag @ ''/paginated?page='' @ Sprint_d page
                      @ ''&limit='' @ Sprint_d limit) v = (Inl e, v')
           \<longrightarrow> SearchPodcastsPaginated env c tag page limit v
                 = (Inl (WrapError ''error searching podcasts with pagination: '' e), v'))
      \<and> (get env c ''/health'' v = (Inl e, v')
           \<longrightarrow> GetHealth env c v
                 = (Inl (WrapError ''error retrieving health status: '' e), v'))
      \<and> (post env old_Marshal c ''/api/v1/articles'' old_article_request v = (Inl e, v')
           \<longrightarrow> CreateArticle_legacy env old_Marshal c old_article_request v
                 = (Some (WrapError ''error creating article: '' e), v'))
      \<and> (post env old_podcast_Marshal c ''/api/v1/podcasts'' old_podcast_request v = (Inl e, v')
           \<longrightarrow> CreatePodcast_legacy env old_podcast_Marshal c old_podcast_request v
                 = (Some (WrapError ''error creating podcast: '' e), v')))
   \<and> (\<forall>prefix e. Unwrap (WrapError prefix e) = Some e
        \<and> Error lib_text (WrapError prefix e) = prefix @ Error lib_text e)
   \<and> (\<forall>prefix e e'.
        prefix \<in> set [''error creating article: '', ''error retrieving article: '',
                      ''error searching articles: '', ''error searching articles with pagination: '',
                      ''error creating podcast: '', ''error retrieving podcast: '',
                      ''error searching podcasts: '', ''error searching podcasts with pagination: '',
                      ''error retrieving health status: '']
        \<longrightarrow> WrapError ''error unmarshalling response data: '' e \<noteq> WrapError prefix e')"
  (is "(?blind \<longrightarrow> ?rejected) \<and> ?not_json \<and> ?forwarded \<and> ?wrapped \<and> ?distinct")
proof (intro conjI)
  show "?blind \<longrightarrow> ?rejected"
  proof
    assume b: ?blind
    then have d: "\<forall>req. client_Do env req w = (Inr res, w')" and s: "StatusCode res = 200"
      and r: "ReadAll_Body res = Inr body"
      by blast+
    have g: "get env c endpoint w = (Inr body, w')"
      if "NewRequest_error env (url c @ endpoint) = None" for endpoint
      by (rule get_200 [OF that d s r])
    obtain ja jp where ja: "Marshal_CreateArticleRequest (encoding_json env) article_request = Inr ja"
      and jp: "Marshal_CreatePodcastRequest (encoding_json env) podcast_request = Inr jp"
      using Marshal_requests_succeed by blast
    have pa: "post env (Marshal_CreateArticleRequest (encoding_json env)) c endpoint article_request w
                = (Inr body, w')"
      if "NewRequest_error env (url c @ endpoint) = None" for endpoint
      using that d s r ja by (simp add: post_def http_NewRequest_def StatusOK_def)
    have pp: "post env (Marshal_CreatePodcastRequest (encoding_json env)) c endpoint podcast_request w
                = (Inr body, w')"
      if "NewRequest_error env (url c @ endpoint) = None" for endpoint
      using that d s r jp by (simp add: post_def http_NewRequest_def StatusOK_def)
    show ?rejected
      by (intro conjI allI impI; elim conjE)
        (simp_all add: CreateArticle_cases GetArticle_cases SearchArticles_cases
          SearchArticlesPaginated_cases CreatePodcast_cases GetPodcast_cases SearchPodcasts_cases
          SearchPodcastsPaginated_cases GetHealth_cases g pa pp)
  qed
  show ?not_json
    by (simp add: syntax_error)
  show ?forwarded
    by (simp add: CreateArticle_cases GetArticle_cases SearchArticles_cases
        SearchArticlesPaginated_cases CreatePodcast_cases GetPodcast_cases SearchPodcasts_cases
        SearchPodcastsPaginated_cases GetHealth_cases CreateArticle_legacy_cases
        CreatePodcast_legacy_cases)
  show ?wrapped
    by simp
  show ?distinct
    by auto
qed

theorem unmarshalling_failure_and_forwarding_witness:
  "GetArticle (example_scripted_env example_script) example_client ''1'' 0
     = (Inl (WrapError ''error unmarshalling response data: '' (LibError SyntaxError)), 1)
   \<and> GetHealth (example_scripted_env example_script) example_client 0
     = (Inl (WrapError ''error unmarshalling response data: '' (LibError SyntaxError)), 1)
   \<and> CreatePodcast (example_scripted_env example_script) example_client example_podcast_request 0
     = (Inl (WrapError ''error unmarshalling response data: '' (LibError SyntaxError)), 1)
   \<and> GetArticle (example_scripted_env example_script) example_client ''1'' 1
     = (Inl (WrapError ''error retrieving article: '' (LibError (ForeignError ''connection refused''))), 2)
   \<and> GetArticle (example_strict_env 200 ''not json'') example_client ''%zz'' 0
     = (Inl (WrapError ''error retrieving article: '' (LibError (ForeignError ''invalid URL escape''))), 0)"
proof -
  let ?env = "example_scripted_env example_script"
  let ?res = "\<lparr>StatusCode = 200, ReadAll_Body = Inr ''not json''\<rparr>"
  have blind: "(\<forall>req. client_Do ?env req 0 = (Inr ?res, 1)) \<and> StatusCode ?res = 200
      \<and> ReadAll_Body ?res = Inr ''not json''"
    by (simp add: example_scripted_env_simps example_script_def)
  have n: "NewRequest_error ?env u = None" for u
    by (simp add: example_scripted_env_simps)
  have u: "json_Unmarshal dec ''not json'' v = Inl (LibError SyntaxError)" for dec and v :: 'z
    by (simp add: syntax_error ex_not_json)
  have down: "get ?env example_client (''/api/v1/articles/'' @ ''1'') 1
             = (Inl (LibError (ForeignError ''connection refused'')), 2)"
    by (rule get_transport_error) (simp_all add: example_scripted_env_simps example_script_def)
  have refused: "get (example_strict_env 200 ''not json'') example_client (''/api/v1/articles/'' @ ''%zz'') 0
             = (Inl (LibError (ForeignError ''invalid URL escape'')), 0)"
    by (rule get_refused) (simp add: example_strict_env_simps example_client_def is_hex_def)
  note c2 = conjunct2
  note t = unmarshalling_failure_and_forwarding [where env = ?env and w = 0 and w' = 1 and res = ?res
      and body = "''not json''" and c = example_client and ident = "''1''"
      and podcast_request = example_podcast_request and article_request = example_request
      and old_Marshal = example_legacy_Marshal and old_article_request = "()"
      and old_podcast_Marshal = example_legacy_Marshal and old_podcast_request = "()"
      and tag = "''t''" and page = 1 and limit = 20 and lib_text = "\<lambda>e. []" and ?'a = unit]
  note rejected = t [THEN conjunct1, THEN mp, OF blind]
  note forwarded = t [THEN c2, THEN c2, THEN conjunct1, THEN spec, THEN spec, THEN spec]
  note t' = unmarshalling_failure_and_forwarding [where env = "example_strict_env 200 ''not json''"
      and w = 0 and w' = 1 and res = ?res
      and body = "''not json''" and c = example_client and ident = "''%zz''"
      and podcast_request = example_podcast_request and article_request = example_request
      and old_Marshal = example_legacy_Marshal and old_article_request = "()"
      and old_podcast_Marshal = example_legacy_Marshal and old_podcast_request = "()"
      and tag = "''t''" and page = 1 and limit = 20 and lib_text = "\<lambda>e. []" and ?'a = unit]
  note forwarded' = t' [THEN c2, THEN c2, THEN conjunct1, THEN spec, THEN spec, THEN spec]
  have a1: "GetArticle ?env example_client ''1'' 0
     = (Inl (WrapError ''error unmarshalling response data: '' (LibError SyntaxError)), 1)"
    by (rule rejected [THEN c2, THEN conjunct1, THEN spec, THEN mp, OF conjI [OF n u]])
  have a2: "GetHealth ?env example_client 0
     = (Inl (WrapError ''error unmarshalling response data: '' (LibError SyntaxError)), 1)"
    by (rule rejected [THEN c2, THEN c2, THEN c2, THEN c2, THEN c2, THEN c2, THEN c2, THEN c2,
          THEN spec, THEN mp, OF conjI [OF n u]])
  have a3: "CreatePodcast ?env example_client example_podcast_request 0
     = (Inl (WrapError ''error unmarshalling response data: '' (LibError SyntaxError)), 1)"
    by (rule rejected [THEN c2, THEN c2, THEN c2, THEN c2, THEN conjunct1, THEN spec, THEN mp,
          OF conjI [OF n u]])
  have a5: "GetArticle ?env example_client ''1'' 1
     = (Inl (WrapError ''error retrieving article: '' (LibError (ForeignError ''connection refused''))), 2)"
    by (rule forwarded [THEN c2, THEN conjunct1, THEN mp, OF down])
  have a6: "GetArticle (example_strict_env 200 ''not json'') example_client ''%zz'' 0
     = (Inl (WrapError ''error retrieving article: '' (LibError (ForeignError ''invalid URL escape''))), 0)"
    by (rule forwarded' [THEN c2, THEN conjunct1, THEN mp, OF refused])
  from a1 a2 a3 a5 a6 show ?thesis
    by (intro conjI)
qed

subsection \<open>Paginated search\<close>





text \<open>
  What a key that comes again does to a slice: the second array is decoded
  into the elements the first one left, so \<^verbatim>\<open>null\<close> keeps the old element, and
  what is cut off stays behind the length, where a third array finds it.
\<close>

lemma repeated_key_reuses_elements:
  "decode_Podcast example_json
     (JObject [(''tags'', JArray [JString ''a'', JString ''b'']), (''tags'', JArray [JNull])])
     zero_Podcast
   = Some (zero_Podcast\<lparr>Podcast_Tags := Slice [''a''] [''b'']\<rparr>)"
  "decode_Podcast example_json
     (JObject [(''tags'', JArray [JString ''a'', JString ''b'']), (''tags'', JArray [JNull]),
               (''tags'', JArray [JNull, JNull, JNull])])
     zero_Podcast
   = Some (zero_Podcast\<lparr>Podcast_Tags := Slice [''a'', ''b'', []] []\<rparr>)"
  by (simp_all add: decode_Podcast_def decode_struct_def unquote_def plain_char_def select_field_def
      entity_names_def store_Podcast_def decode_string_def decode_slice_def zero_Podcast_def)




subsection \<open>URLs\<close>

text \<open>
  C8. The URL of a request is the base URL followed by the path, byte for
  byte, and it is this string that \<^verbatim>\<open>http.NewRequest\<close> accepts or refuses;
  \<^verbatim>\<open>SearchArticles\<close> and \<^verbatim>\<open>SearchPodcasts\<close> put the tag into the path as it is.
\<close>

theorem urls_are_plain_concatenations:
  "map URL (snd (snd (get (recording env) c endpoint (w, log)))) =
     map URL log @ (case NewRequest_error env (url c @ endpoint) of
                      Some err \<Rightarrow> [] | None \<Rightarrow> [url c @ endpoint])
   \<and> map URL (snd (snd (post (recording env) Marshal c endpoint payload (w, log)))) =
     map URL log @ (case Marshal payload of
                      Inl err \<Rightarrow> []
                    | Inr jsonData \<Rightarrow>
                        (case NewRequest_error env (url c @ endpoint) of
                           Some err \<Rightarrow> [] | None \<Rightarrow> [url c @ endpoint]))
   \<and> map URL (snd (snd (SearchArticles (recording env) c tag (w, log)))) =
     map URL log @ (case NewRequest_error env (url c @ ''/api/v1/articles/search/'' @ tag) of
                      Some err \<Rightarrow> [] | None \<Rightarrow> [url c @ ''/api/v1/articles/search/'' @ tag])
   \<and> map URL (snd (snd (SearchPodcasts (recording env) c tag (w, log)))) =
     map URL log @ (case NewRequest_error env (url c @ ''/api/v1/podcasts/search/'' @ tag) of
                      Some err \<Rightarrow> [] | None \<Rightarrow> [url c @ ''/api/v1/podcasts/search/'' @ tag])"
  by (simp add: op_world get_log post_log split: option.splits sum.splits)

theorem urls_are_plain_concatenations_witness:
  "map URL (snd (snd (SearchArticles (recording (example_env 200 ''{}'')) example_client
                        ''a b/c?d=e&f%#'' (0, []))))
     = [''http://localhost:8080/api/v1/articles/search/a b/c?d=e&f%#'']
   \<and> map URL (snd (snd (SearchPodcasts (recording (example_env 200 ''{}'')) example_client
                        ''a b/c?d=e&f%#'' (0, []))))
     = [''http://localhost:8080/api/v1/podcasts/search/a b/c?d=e&f%#'']"
  using urls_are_plain_concatenations [of "example_env 200 ''{}''" example_client "''/x''" 0 "[]"
      "\<lambda>p::unit. Inr ''{}''" "()" "''a b/c?d=e&f%#''"]
  by (simp add: example_env_simps example_client_def)

subsection \<open>A body without the envelope key\<close>

lemma decode_members_skip:
  assumes "\<forall>(k, v) \<in> set ms. select_field L names (unquote L k) = None"
  shows "decode_members L names store ms a = Some a"
  using assms by (induction ms) auto

lemma ex_data_parse:
  "json_parse example_data_body = Some (JObject [(''data'', JObject [(''id'', JString ''1'')])])"
  unfolding example_data_body_def by (simp add: json_eval)

lemma ex_array_parse: "json_parse ''[]'' = Some (JArray [])"
  by (simp add: json_eval)

text \<open>
  The claim C9 as it is written fails on a body that is valid JSON and has no
  envelope key because it is not an object: for the array \<^verbatim>\<open>[]\<close>, \<^verbatim>\<open>GetArticle\<close>
  returns an error.
\<close>

theorem array_body_is_an_error:
  "json_parse ''[]'' = Some (JArray [])
   \<and> GetArticle (example_env 200 ''[]'') example_client ''1'' 0
       = (Inl (WrapError ''error unmarshalling response data: '' (LibError UnmarshalValueError)), 1)"
  by (simp add: ex_array_parse GetArticle_cases get_def http_NewRequest_def example_env_simps
      StatusOK_def Let_def json_Unmarshal_def decode_ArticleResponse_def decode_struct_def)

text \<open>
  C9, amended. On a 200 response whose body is a JSON object in which no key
  selects the envelope field (\<^verbatim>\<open>{}\<close> for one), or is the JSON \<^verbatim>\<open>null\<close>,
  \<^verbatim>\<open>GetArticle\<close> and \<^verbatim>\<open>CreateArticle\<close>, and likewise \<^verbatim>\<open>GetPodcast\<close> and
  \<^verbatim>\<open>CreatePodcast\<close>, return a nil pointer and a nil error. A body that is valid
  JSON of another kind (an array, a string, a number, a boolean) is an
  unmarshalling error.
\<close>

theorem missing_envelope_key_gives_nil_without_error:
  assumes "\<forall>req. client_Do env req w = (Inr res, w')"
    and "StatusCode res = 200"
    and "ReadAll_Body res = Inr body"
    and "json_parse body = Some j"
  shows "(j = JNull
          \<or> (\<exists>ms. j = JObject ms
                \<and> (\<forall>(k, v) \<in> set ms.
                      select_field (encoding_json env) [''article''] (unquote (encoding_json env) k) = None))
          \<longrightarrow> (NewRequest_error env (url c @ ''/api/v1/articles/'' @ ident) = None
                 \<longrightarrow> GetArticle env c ident w = (Inr None, w'))
              \<and> (NewRequest_error env (url c @ ''/api/v1/articles'') = None
                 \<longrightarrow> CreateArticle env c article_request w = (Inr None, w')))
       \<and> (j = JNull
          \<or> (\<exists>ms. j = JObject ms
                \<and> (\<forall>(k, v) \<in> set ms.
                      select_field (encoding_json env) [''podcast''] (unquote (encoding_json env) k) = None))
          \<longrightarrow> (NewRequest_error env (url c @ ''/api/v1/podcasts/'' @ ident) = None
                 \<longrightarrow> GetPodcast env c ident w = (Inr None, w'))
              \<and> (NewRequest_error env (url c @ ''/api/v1/podcasts'') = None
                 \<longrightarrow> CreatePodcast env c podcast_request w = (Inr None, w')))
       \<and> ((\<exists>js. j = JArray js) \<or> (\<exists>s. j = JString s) \<or> (\<exists>n. j = JNumber n) \<or> (\<exists>b. j = JBool b)
          \<longrightarrow> (NewRequest_error env (url c @ ''/api/v1/articles/'' @ ident) = None
                 \<longrightarrow> GetArticle env c ident w
                       = (Inl (WrapError ''error unmarshalling response data: ''
                                 (LibError UnmarshalValueError)), w'))
              \<and> (NewRequest_error env (url c @ ''/api/v1/articles'') = None
                 \<longrightarrow> CreateArticle env c article_request w
                       = (Inl (WrapError ''error unmarshalling response data: ''
                                 (LibError UnmarshalValueError)), w'))
              \<and> (NewRequest_error env (url c @ ''/api/v1/podcasts/'' @ ident) = None
                 \<longrightarrow> GetPodcast env c ident w
                       = (Inl (WrapError ''error unmarshalling response data: ''
                                 (LibError UnmarshalValueError)), w'))
              \<and> (NewRequest_error env (url c @ ''/api/v1/podcasts'') = None
                 \<longrightarrow> CreatePodcast env c podcast_request w
                       = (Inl (WrapError ''error unmarshalling response data: ''
                                 (LibError UnmarshalValueError)), w')))"
  (is "(?no_article \<longrightarrow> ?nil_article) \<and> (?no_podcast \<longrightarrow> ?nil_podcast) \<and> (?other \<longrightarrow> ?error)")
proof -
  have g: "get env c endpoint w = (Inr body, w')"
    if "NewRequest_error env (url c @ endpoint) = None" for endpoint
    by (rule get_200 [OF that assms(1-3)])
  obtain ja jp where ja: "Marshal_CreateArticleRequest (encoding_json env) article_request = Inr ja"
    and jp: "Marshal_CreatePodcastRequest (encoding_json env) podcast_request = Inr jp"
    using Marshal_requests_succeed by blast
  have pa: "post env (Marshal_CreateArticleRequest (encoding_json env)) c endpoint article_request w
              = (Inr body, w')"
    if "NewRequest_error env (url c @ endpoint) = None" for endpoint
    using that assms(1-3) ja by (simp add: post_def http_NewRequest_def StatusOK_def)
  have pp: "post env (Marshal_CreatePodcastRequest (encoding_json env)) c endpoint podcast_request w
              = (Inr body, w')"
    if "NewRequest_error env (url c @ endpoint) = None" for endpoint
    using that assms(1-3) jp by (simp add: post_def http_NewRequest_def StatusOK_def)
  have ua: "json_Unmarshal (decode_ArticleResponse (encoding_json env)) body \<lparr>Response_Article = None\<rparr>
              = Inr \<lparr>Response_Article = None\<rparr>" if ?no_article
    using that assms(4)
    by (auto simp: json_Unmarshal_def decode_ArticleResponse_def decode_struct_def decode_members_skip)
  have up: "json_Unmarshal (decode_PodcastResponse (encoding_json env)) body \<lparr>Response_Podcast = None\<rparr>
              = Inr \<lparr>Response_Podcast = None\<rparr>" if ?no_podcast
    using that assms(4)
    by (auto simp: json_Unmarshal_def decode_PodcastResponse_def decode_struct_def decode_members_skip)
  have ea: "json_Unmarshal (decode_ArticleResponse (encoding_json env)) body \<lparr>Response_Article = None\<rparr>
              = Inl (LibError UnmarshalValueError)"
    and ep: "json_Unmarshal (decode_PodcastResponse (encoding_json env)) body \<lparr>Response_Podcast = None\<rparr>
              = Inl (LibError UnmarshalValueError)" if ?other
    using that assms(4)
    by (auto simp: json_Unmarshal_def decode_ArticleResponse_def decode_PodcastResponse_def
        decode_struct_def)
  show ?thesis
  proof (intro conjI impI)
    assume ?no_article
    note u = ua [OF this]
    {
      assume "NewRequest_error env (url c @ ''/api/v1/articles/'' @ ident) = None"
      then show "GetArticle env c ident w = (Inr None, w')"
        using u by (simp add: GetArticle_cases g)
    next
      assume "NewRequest_error env (url c @ ''/api/v1/articles'') = None"
      then show "CreateArticle env c article_request w = (Inr None, w')"
        using u by (simp add: CreateArticle_cases pa)
    }
  next
    assume ?no_podcast
    note u = up [OF this]
    {
      assume "NewRequest_error env (url c @ ''/api/v1/podcasts/'' @ ident) = None"
      then show "GetPodcast env c ident w = (Inr None, w')"
        using u by (simp add: GetPodcast_cases g)
    next
      assume "NewRequest_error env (url c @ ''/api/v1/podcasts'') = None"
      then show "CreatePodcast env c podcast_request w = (Inr None, w')"
        using u by (simp add: CreatePodcast_cases pp)
    }
  next
    assume o: ?other
    {
      assume "NewRequest_error env (url c @ ''/api/v1/articles/'' @ ident) = None"
      then show "GetArticle env c ident w
                   = (Inl (WrapError ''error unmarshalling response data: ''
                             (LibError UnmarshalValueError)), w')"
        using ea [OF o] by (simp add: GetArticle_cases g)
    next
      assume "NewRequest_error env (url c @ ''/api/v1/articles'') = None"
      then show "CreateArticle env c article_request w
                   = (Inl (WrapError ''error unmarshalling response data: ''
                             (LibError UnmarshalValueError)), w')"
        using ea [OF o] by (simp add: CreateArticle_cases pa)
    next
      assume "NewRequest_error env (url c @ ''/api/v1/podcasts/'' @ ident) = None"
      then show "GetPodcast env c ident w
                   = (Inl (WrapError ''error unmarshalling response data: ''
                             (LibError UnmarshalValueError)), w')"
        using ep [OF o] by (simp add: GetPodcast_cases g)
    next
      assume "NewRequest_error env (url c @ ''/api/v1/podcasts'') = None"
      then show "CreatePodcast env c podcast_request w
                   = (Inl (WrapError ''error unmarshalling response data: ''
                             (LibError UnmarshalValueError)), w')"
        using ep [OF o] by (simp add: CreatePodcast_cases pp)
    }
  qed
qed

theorem missing_envelope_key_gives_nil_without_error_witness:
  "GetArticle (example_strict_env 200 example_data_body) example_client ''1'' 0 = (Inr None, 1)
   \<and> CreateArticle (example_strict_env 200 example_data_body) example_client example_request 0
       = (Inr None, 1)
   \<and> GetPodcast (example_strict_env 200 example_data_body) example_client ''1'' 0 = (Inr None, 1)
   \<and> CreatePodcast (example_strict_env 200 example_data_body) example_client example_podcast_request 0
       = (Inr None, 1)
   \<and> GetPodcast (example_strict_env 200 ''[]'') example_client ''1'' 0
       = (Inl (WrapError ''error unmarshalling response data: '' (LibError UnmarshalValueError)), 1)"
proof -
  let ?env = "example_strict_env 200 example_data_body"
  let ?env' = "example_strict_env 200 ''[]''"
  have 4: "\<forall>req. client_Do ?env' req 0 = (Inr \<lparr>StatusCode = 200, ReadAll_Body = Inr ''[]''\<rparr>, 1)"
    by (simp add: example_strict_env_simps)
  have 5: "StatusCode \<lparr>StatusCode = 200, ReadAll_Body = Inr ''[]''\<rparr> = 200"
    by simp
  have 6: "ReadAll_Body \<lparr>StatusCode = 200, ReadAll_Body = Inr ''[]''\<rparr> = Inr ''[]''"
    by simp
  have array: "GetPodcast ?env' example_client ''1'' 0
       = (Inl (WrapError ''error unmarshalling response data: '' (LibError UnmarshalValueError)), 1)"
    using missing_envelope_key_gives_nil_without_error [OF 4 5 6 ex_array_parse,
        where c = example_client and ident = "''1''"]
    by (simp add: example_strict_env_simps example_client_def)
  have 1: "\<forall>req. client_Do ?env req 0
             = (Inr \<lparr>StatusCode = 200, ReadAll_Body = Inr example_data_body\<rparr>, 1)"
    by (simp add: example_strict_env_simps)
  have 2: "StatusCode \<lparr>StatusCode = 200, ReadAll_Body = Inr example_data_body\<rparr> = 200"
    by simp
  have 3: "ReadAll_Body \<lparr>StatusCode = 200, ReadAll_Body = Inr example_data_body\<rparr>
             = Inr example_data_body"
    by simp
  show ?thesis
    using missing_envelope_key_gives_nil_without_error [OF 1 2 3 ex_data_parse,
        where c = example_client and ident = "''1''" and article_request = example_request
          and podcast_request = example_podcast_request] array
    by (simp add: example_strict_env_simps select_field_def unquote_def plain_char_def
        example_json_def upper_ascii_def is_letter_def example_client_def)
qed

subsection \<open>The two variants of \<^verbatim>\<open>CreateArticle\<close>\<close>

lemma ex_post_500:
  "post (example_env 500 ''oops'') Marshal example_client ''/api/v1/articles'' payload 0 =
     (case Marshal payload of
        Inl err \<Rightarrow> (Inl (WrapError ''error marshalling data to JSON: '' err), 0)
      | Inr j \<Rightarrow> (Inl (ErrorString ''unexpected status code: 500, body: oops''), 1))"
  by (simp add: post_def http_NewRequest_def example_env_simps StatusOK_def Sprint_d_500 Let_def
      split: sum.splits)

lemma ex_post_empty_object:
  "post (example_env 200 ''{}'') Marshal example_client ''/api/v1/articles'' payload 0 =
     (case Marshal payload of
        Inl err \<Rightarrow> (Inl (WrapError ''error marshalling data to JSON: '' err), 0)
      | Inr j \<Rightarrow> (Inr ''{}'', 1))"
  by (simp add: post_def http_NewRequest_def example_env_simps StatusOK_def Let_def
      split: sum.splits)

lemma ex_empty_object_parse: "json_parse ''{}'' = Some (JObject [])"
  by (simp add: json_eval)

lemma post_blind:
  assumes "Marshal payload = Inr j" and "\<forall>req. client_Do env req w = (outcome, w')"
  shows "post env Marshal c endpoint payload w =
     (case NewRequest_error env (url c @ endpoint) of
        Some err \<Rightarrow> (Inl (WrapError ''error creating request: '' err), w)
      | None \<Rightarrow>
          (case outcome of
             Inl err \<Rightarrow> (Inl (WrapError ''error sending request: '' err), w')
           | Inr res \<Rightarrow>
               (case ReadAll_Body res of
                  Inl err \<Rightarrow> (Inl (WrapError ''error reading response body: '' err), w')
                | Inr body \<Rightarrow>
                    if StatusCode res \<noteq> 200
                    then (Inl (ErrorString (''unexpected status code: ''
                                 @ Sprint_d (StatusCode res) @ '', body: '' @ body)), w')
                    else (Inr body, w'))))"
  using assms
  by (simp add: post_def http_NewRequest_def StatusOK_def Let_def split: option.splits sum.splits)

text \<open>
  The claim C10 as it is written fails on a payload of the older variant that
  \<^verbatim>\<open>json.Marshal\<close> rejects: the older variant fails before anything is sent, and
  the typed variant, whose payload always marshals, succeeds on the same
  response.
\<close>

theorem older_variant_alone_fails_to_marshal:
  "CreateArticle_legacy (example_env 200 ''{}'') example_failing_Marshal example_client () 0
     = (Some (WrapError ''error creating article: ''
               (WrapError ''error marshalling data to JSON: ''
                 (LibError (ForeignError ''json: error calling MarshalJSON'')))), 0)
   \<and> CreateArticle (example_env 200 ''{}'') example_client example_request 0 = (Inr None, 1)"
  by (simp add: CreateArticle_legacy_cases CreateArticle_cases ex_post_empty_object
      example_failing_Marshal_def Marshal_CreateArticleRequest_def example_env_simps
      json_Unmarshal_def ex_empty_object_parse decode_ArticleResponse_def decode_struct_def)

text \<open>
  C10, amended. The older \<^verbatim>\<open>CreateArticle\<close> succeeds exactly when \<^verbatim>\<open>post\<close> does; the
  one with a typed result succeeds exactly when \<^verbatim>\<open>post\<close> does and the body it
  returned unmarshals. For every payload of the older variant that marshals,
  every payload of the typed variant, and every simulated outcome of the
  request (an error of the transport or any response): \<^verbatim>\<open>post\<close> comes out the
  same for both, and whenever the older variant fails, the typed one fails with
  the same error, \<^verbatim>\<open>error creating article: <cause>\<close>.
\<close>

theorem CreateArticle_variants:
  "(fst (CreateArticle_legacy env Marshal c old_request w) = None
      \<longleftrightarrow> (\<exists>d. fst (post env Marshal c ''/api/v1/articles'' old_request w) = Inr d))
   \<and> ((\<exists>a. fst (CreateArticle env c request w) = Inr a)
      \<longleftrightarrow> (\<exists>d r. fst (post env (Marshal_CreateArticleRequest (encoding_json env)) c
                          ''/api/v1/articles'' request w) = Inr d
                 \<and> json_Unmarshal (decode_ArticleResponse (encoding_json env)) d
                      \<lparr>Response_Article = None\<rparr> = Inr r))
   \<and> (Marshal old_request = Inr old_json \<and> (\<forall>req. client_Do env req w = (outcome, w'))
      \<longrightarrow> post env Marshal c ''/api/v1/articles'' old_request w
            = post env (Marshal_CreateArticleRequest (encoding_json env)) c ''/api/v1/articles''
                request w
          \<and> (\<forall>err. fst (CreateArticle_legacy env Marshal c old_request w) = Some err
                \<longrightarrow> (\<exists>e. err = WrapError ''error creating article: '' e
                         \<and> fst (post env Marshal c ''/api/v1/articles'' old_request w) = Inl e)
                   \<and> CreateArticle env c request w
                       = (Inl err, snd (CreateArticle_legacy env Marshal c old_request w))))"
  (is "?older \<and> ?typed \<and> (?given \<longrightarrow> ?same \<and> ?superset)")
proof (intro conjI impI)
  show ?older
    by (auto simp: CreateArticle_legacy_cases split: prod.splits sum.splits)
  show ?typed
    by (auto simp: CreateArticle_cases split: prod.splits sum.splits)
  assume g: ?given
  obtain j where j: "Marshal_CreateArticleRequest (encoding_json env) request = Inr j"
    using Marshal_requests_succeed by blast
  from g have m: "Marshal old_request = Inr old_json"
    and d: "\<forall>req. client_Do env req w = (outcome, w')"
    by blast+
  show same: ?same
    by (simp only: post_blind [where Marshal = Marshal and payload = old_request, OF m d]
        post_blind [where Marshal = "Marshal_CreateArticleRequest (encoding_json env)"
          and payload = request, OF j d])
  show ?superset
    by (auto simp: CreateArticle_legacy_cases CreateArticle_cases same [symmetric]
        split: prod.splits sum.splits)
qed

theorem CreateArticle_variants_witness:
  "CreateArticle_legacy (example_env 500 ''oops'') example_legacy_Marshal example_client () 0
     = (Some (WrapError ''error creating article: ''
                (ErrorString ''unexpected status code: 500, body: oops'')), 1)
   \<and> CreateArticle (example_env 500 ''oops'') example_client example_request 0
     = (Inl (WrapError ''error creating article: ''
                (ErrorString ''unexpected status code: 500, body: oops'')), 1)
   \<and> CreateArticle_legacy (example_env 200 ''not json'') example_legacy_Marshal example_client () 0
     = (None, 1)
   \<and> CreateArticle (example_env 200 ''not json'') example_client example_request 0
     = (Inl (WrapError ''error unmarshalling response data: '' (LibError SyntaxError)), 1)"
proof -
  let ?env = "example_env 500 ''oops''"
  have m: "example_legacy_Marshal () = Inr ''{}''"
    by (simp add: example_legacy_Marshal_def)
  have d: "\<forall>req. client_Do ?env req 0
             = (Inr \<lparr>StatusCode = 500, ReadAll_Body = Inr ''oops''\<rparr>, 1)"
    by (simp add: example_env_simps)
  have legacy: "CreateArticle_legacy ?env example_legacy_Marshal example_client () 0
     = (Some (WrapError ''error creating article: ''
                (ErrorString ''unexpected status code: 500, body: oops'')), 1)"
    by (simp add: CreateArticle_legacy_cases ex_post_500 m)
  note t = CreateArticle_variants [where env = ?env and Marshal = example_legacy_Marshal
      and c = example_client and old_request = "()" and w = 0 and request = example_request
      and old_json = "''{}''" and w' = 1
      and outcome = "Inr \<lparr>StatusCode = 500, ReadAll_Body = Inr ''oops''\<rparr>"]
  note superset = t [THEN conjunct2, THEN conjunct2, THEN mp, OF conjI [OF m d], THEN conjunct2,
      THEN spec, THEN mp, THEN conjunct2]
  have typed: "CreateArticle ?env example_client example_request 0
     = (Inl (WrapError ''error creating article: ''
                (ErrorString ''unexpected status code: 500, body: oops'')), 1)"
    using superset [of "WrapError ''error creating article: ''
                (ErrorString ''unexpected status code: 500, body: oops'')"] legacy
    by simp
  have l2: "CreateArticle_legacy (example_env 200 ''not json'') example_legacy_Marshal example_client () 0
     = (None, 1)"
    by (simp add: CreateArticle_legacy_cases ex_post_200 m)
  have t2: "CreateArticle (example_env 200 ''not json'') example_client example_request 0
     = (Inl (WrapError ''error unmarshalling response data: '' (LibError SyntaxError)), 1)"
    by (simp add: CreateArticle_cases ex_post_200 syntax_error ex_not_json
        Marshal_CreateArticleRequest_def example_env_simps)
  from legacy typed l2 t2 show ?thesis
    by (intro conjI)
qed

end
